theory Spec2Isabelle
  imports Main "HOL-Library.Multiset" "HOL-Library.Sublist"
begin

section \<open>Decimal rendering of numbers\<close>

text \<open>
  JavaScript turns a number into text when it is concatenated with a string. For the
  non-negative integers that occur here that text is the plain decimal numeral.
  \<open>digit_char\<close> is only ever applied to a digit below ten.
\<close>

definition digit_char :: "nat \<Rightarrow> char" where
  "digit_char d = ''0123456789'' ! d"

fun show_nat :: "nat \<Rightarrow> string" where
  "show_nat n = (if n < 10 then [digit_char n] else show_nat (n div 10) @ [digit_char (n mod 10)])"

declare show_nat.simps [simp del]

section \<open>The management page: \<open>src/app/files/manage/[id]/page.tsx\<close>\<close>

text \<open>
  The React state of \<open>ManageFilePage\<close> that the handlers below read or write. Each
  \<open>useState\<close> cell is a field; a handler is a function from the state before the
  event to the state after it. The cell \<open>error\<close> is called \<open>pageError\<close> here, since
  the chat hook has a field \<open>error\<close> of its own.
\<close>

record page_state =
  editToken :: string
  isAuthenticated :: bool
  pageError :: string
  filesToDelete :: "string list"

text \<open>
  \<open>handleAuthenticate\<close>: the condition \<open>editToken && editToken.length >= 10\<close>. The
  empty string is the only falsy string, and the length of a text is the number of its
  characters. The else branch writes the error only.
\<close>

definition handleAuthenticate :: "page_state \<Rightarrow> page_state" where
  "handleAuthenticate s =
     (if editToken s \<noteq> [] \<and> 10 \<le> length (editToken s)
      then s\<lparr>isAuthenticated := True, pageError := []\<rparr>
      else s\<lparr>pageError := ''Invalid edit token.''\<rparr>)"

text \<open>
  \<open>handleDeleteExistingFile\<close> appends the token:
  \<open>setFilesToDelete(prev => [...prev, fileToken])\<close>.
\<close>

definition handleDeleteExistingFile :: "string \<Rightarrow> page_state \<Rightarrow> page_state" where
  "handleDeleteExistingFile fileToken s = s\<lparr>filesToDelete := filesToDelete s @ [fileToken]\<rparr>"

text \<open>
  \<open>handleUndoDeleteExistingFile\<close> removes every occurrence:
  \<open>setFilesToDelete(prev => prev.filter(token => token !== fileToken))\<close>.
\<close>

definition handleUndoDeleteExistingFile :: "string \<Rightarrow> page_state \<Rightarrow> page_state" where
  "handleUndoDeleteExistingFile fileToken s =
     s\<lparr>filesToDelete := filter (\<lambda>token. token \<noteq> fileToken) (filesToDelete s)\<rparr>"

subsection \<open>formatFileSize\<close>

text \<open>
  \<open>sizes\<close> is the unit table of \<open>formatFileSize\<close>. Reading it past its end gives
  \<open>undefined\<close>, which string concatenation prints as the word \<open>undefined\<close>.
\<close>

definition sizes :: "string list" where
  "sizes = [''Bytes'', ''KB'', ''MB'', ''GB'']"

definition size_unit :: "nat \<Rightarrow> string" where
  "size_unit i = (if i < length sizes then sizes ! i else ''undefined'')"

text \<open>
  \<open>Math.floor(Math.log(bytes) / Math.log(k))\<close> with \<open>k = 1024\<close> is computed in
  doubles, and the value of \<open>Math.log\<close> is an approximation that the platform chooses.
  The index is therefore a parameter of \<open>formatFileSize\<close>: \<open>floor_log bytes\<close> is what
  the platform computes for \<open>bytes\<close>.

  \<open>exact_floor_log bytes\<close> is the exact floor of the logarithm of \<open>bytes\<close> to base 1024
  (for \<open>bytes > 0\<close>): the number of times \<open>bytes\<close> can be divided by 1024 before it
  drops below 1024. The platform's index is this number wherever the quotient of the
  two logarithms is not within rounding distance of a whole number; just below a high
  power of 1024 it can be one more.
\<close>

fun exact_floor_log :: "nat \<Rightarrow> nat" where
  "exact_floor_log bytes =
     (if bytes < 1024 then 0 else Suc (exact_floor_log (bytes div 1024)))"

declare exact_floor_log.simps [simp del]

text \<open>
  \<open>(bytes / Math.pow(k, i)).toFixed(2)\<close>: \<open>Math.pow(k, i)\<close> is the power of two
  \<open>1024 ^ i\<close>, the quotient of a byte count below \<open>2 ^ 53\<close> by it is exact, and
  \<open>toFixed(2)\<close> picks the nearest multiple of 0.01, the larger one on a tie.
  \<open>hundredths bytes i\<close> is that multiple, counted in hundredths.
\<close>

definition hundredths :: "nat \<Rightarrow> nat \<Rightarrow> nat" where
  "hundredths bytes i = (200 * bytes + 1024 ^ i) div (2 * 1024 ^ i)"

text \<open>
  \<open>parseFloat\<close> of the two-decimal text, printed again by the concatenation: trailing
  zeros after the point are dropped, and the point with them. This is the text for
  quotients below \<open>10 ^ 13\<close>, where a double still holds both decimals.
\<close>

definition show_hundredths :: "nat \<Rightarrow> string" where
  "show_hundredths h =
     show_nat (h div 100) @
     (if h mod 100 = 0 then []
      else CHR ''.'' # digit_char (h mod 100 div 10) #
           (if h mod 10 = 0 then [] else [digit_char (h mod 10)]))"

definition formatFileSize :: "(nat \<Rightarrow> nat) \<Rightarrow> nat \<Rightarrow> string" where
  "formatFileSize floor_log bytes =
     (if bytes = 0 then ''0 Bytes''
      else let i = floor_log bytes
           in show_hundredths (hundredths bytes i) @ '' '' @ size_unit i)"

section \<open>The chat hook: \<open>src/hooks/use-supabase-chat.ts\<close>\<close>

subsection \<open>Types\<close>

text \<open>
  The interfaces \<open>ChatMessage\<close>, \<open>ChatParticipant\<close>, \<open>ChatError\<close> and \<open>ChatState\<close>.
  Field names carry a prefix where two interfaces share a name. \<open>messageType\<close> is a
  string at run time (the cast in the source checks nothing); an optional field is an
  \<open>option\<close>; the \<open>Date\<close> of an error is its time in milliseconds.
\<close>

record ChatMessage =
  m_id :: string
  m_roomId :: string
  m_username :: string
  m_message :: string
  m_messageType :: string
  m_createdAt :: string
  m_userId :: "string option"

record ChatParticipant =
  p_id :: string
  p_roomId :: string
  p_username :: string
  p_joinedAt :: string
  p_lastSeen :: string
  p_isOnline :: bool
  p_userId :: "string option"

record ChatError =
  e_code :: string
  e_message :: string
  e_timestamp :: int

record ChatState =
  messages :: "ChatMessage list"
  participants :: "ChatParticipant list"
  isConnected :: bool
  isLoading :: bool
  error :: "ChatError option"
  lastMessageId :: "string option"

text \<open>
  The rows that a realtime change event carries in \<open>payload.new\<close>, with the column
  names of the tables \<open>chat_messages\<close> and \<open>chat_participants\<close>.
\<close>

record message_row =
  mr_id :: string
  mr_room_id :: string
  mr_username :: string
  mr_message :: string
  mr_message_type :: string
  mr_created_at :: string
  mr_user_id :: "string option"

record participant_row =
  pr_id :: string
  pr_room_id :: string
  pr_username :: string
  pr_joined_at :: string
  pr_last_seen :: string
  pr_is_online :: bool
  pr_user_id :: "string option"

text \<open>
  What the hook holds besides its React state: the ref \<open>isMountedRef\<close>, the ref
  \<open>reconnectTimeoutRef\<close> and the timers that \<open>setTimeout\<close> has been asked for. A timer
  is its callback and its delay in milliseconds; its handle is its position in the list.
\<close>

datatype timer_callback = Reconnect

record hook =
  state :: ChatState
  isMountedRef :: bool
  reconnectTimeoutRef :: "nat option"
  timers :: "(timer_callback \<times> nat) list"

subsection \<open>Constants\<close>

definition RETRY_ATTEMPTS :: nat where "RETRY_ATTEMPTS = 3"
definition RETRY_DELAY :: nat where "RETRY_DELAY = 1000"
definition MESSAGE_LIMIT :: nat where "MESSAGE_LIMIT = 100"
definition RECONNECT_DELAY :: nat where "RECONNECT_DELAY = 5000"

subsection \<open>ChatAPIClient.makeRequest\<close>

text \<open>
  What one call of \<open>fetch\<close> can bring: a rejected promise (with the message of its
  error), or a response with a status, a status text and a body. The body either fails
  to parse as JSON (with the message of that error) or is an object with the fields
  \<open>success\<close> and \<open>error\<close> and the rest of the data. \<open>response.ok\<close> holds for the
  statuses 200 to 299.
\<close>

datatype 'd response_body = Unparsable string | Parsed bool "string option" 'd

datatype 'd fetch_outcome = Rejected string | Response nat string "'d response_body"

text \<open>
  The body of the \<open>try\<close> block: the data returned, or the message of the error
  thrown. \<open>data.error || 'API request failed'\<close> takes the default for a missing and
  for an empty error text.
\<close>

fun attempt :: "'d fetch_outcome \<Rightarrow> string + 'd" where
  "attempt (Rejected msg) = Inl msg"
| "attempt (Response status statusText body) =
     (if \<not> (200 \<le> status \<and> status \<le> 299)
      then Inl (''HTTP '' @ show_nat status @ '': '' @ statusText)
      else case body of
             Unparsable msg \<Rightarrow> Inl msg
           | Parsed success err data \<Rightarrow>
               if \<not> success
               then Inl (case err of
                           None \<Rightarrow> ''API request failed''
                         | Some e \<Rightarrow> if e = [] then ''API request failed'' else e)
               else Inr data)"

text \<open>
  What \<open>makeRequest\<close> does that can be seen from outside: it calls \<open>fetch\<close> and it
  sleeps.
\<close>

datatype request_event = Fetch string | Sleep nat

text \<open>
  \<open>makeRequest url options retryCount\<close>. The network is the function \<open>net\<close>: the
  outcome of the call of \<open>fetch\<close> made with retry count \<open>n\<close> is \<open>net n\<close>. The result is
  the data or the error thrown, with the events in the order they happen.
\<close>

function makeRequest ::
  "(nat \<Rightarrow> 'd fetch_outcome) \<Rightarrow> string \<Rightarrow> nat \<Rightarrow> (string + 'd) \<times> request_event list" where
  "makeRequest net url retryCount =
     (case attempt (net retryCount) of
        Inr data \<Rightarrow> (Inr data, [Fetch url])
      | Inl err \<Rightarrow>
          if retryCount < RETRY_ATTEMPTS
          then (fst (makeRequest net url (retryCount + 1)),
                Fetch url # Sleep (RETRY_DELAY * (retryCount + 1)) #
                  snd (makeRequest net url (retryCount + 1)))
          else (Inl err, [Fetch url]))"
  by pat_completeness auto
termination
  by (relation "measure (\<lambda>(net, url, retryCount). RETRY_ATTEMPTS - retryCount)") auto

declare makeRequest.simps [simp del]

subsection \<open>The state setters and fetchMessages\<close>

text \<open>Every setter writes only while the component is mounted.\<close>

definition setError :: "ChatError option \<Rightarrow> hook \<Rightarrow> hook" where
  "setError err h = (if isMountedRef h then h\<lparr>state := (state h)\<lparr>error := err\<rparr>\<rparr> else h)"

definition setLoading :: "bool \<Rightarrow> hook \<Rightarrow> hook" where
  "setLoading b h = (if isMountedRef h then h\<lparr>state := (state h)\<lparr>isLoading := b\<rparr>\<rparr> else h)"

definition setConnected :: "bool \<Rightarrow> hook \<Rightarrow> hook" where
  "setConnected b h = (if isMountedRef h then h\<lparr>state := (state h)\<lparr>isConnected := b\<rparr>\<rparr> else h)"

definition createError :: "int \<Rightarrow> string \<Rightarrow> string \<Rightarrow> ChatError" where
  "createError now c msg = \<lparr>e_code = c, e_message = msg, e_timestamp = now\<rparr>"

text \<open>
  \<open>fetchMessages\<close> up to its \<open>await\<close>: nothing for an empty room id, else
  \<open>setLoading(true)\<close> and \<open>setError(null)\<close>.
\<close>

definition fetchMessages_begin :: "string \<Rightarrow> hook \<Rightarrow> hook" where
  "fetchMessages_begin roomId h =
     (if roomId = [] then h else setError None (setLoading True h))"

text \<open>
  \<open>fetchMessages\<close> from its \<open>await\<close> on, given what the request returned or threw.
  \<open>getTime s\<close> stands for \<open>new Date(s).getTime()\<close>, a function of the platform;
  the model covers messages whose \<open>createdAt\<close> is a date the platform can read.
  \<open>Array.prototype.sort\<close> is stable, and so is \<open>sort_key\<close>. The array is sorted in
  place before \<open>lastMessageId\<close> reads its last element.
\<close>

definition fetchMessages_end ::
  "(string \<Rightarrow> int) \<Rightarrow> string \<Rightarrow> int \<Rightarrow> (string + ChatMessage list) \<Rightarrow> hook \<Rightarrow> hook" where
  "fetchMessages_end getTime roomId now result h =
     (if roomId = [] then h
      else setLoading False
        (case result of
           Inr msgs \<Rightarrow>
             if isMountedRef h
             then h\<lparr>state := (state h)
                    \<lparr>messages := sort_key (\<lambda>m. getTime (m_createdAt m)) msgs,
                     lastMessageId :=
                       (if length msgs > 0
                        then Some (m_id (last (sort_key (\<lambda>m. getTime (m_createdAt m)) msgs)))
                        else None)\<rparr>\<rparr>
             else h
         | Inl msg \<Rightarrow> setError (Some (createError now ''FETCH_MESSAGES_FAILED'' msg)) h))"

subsection \<open>The realtime handlers of setupRealtimeConnection\<close>

definition message_of_row :: "message_row \<Rightarrow> ChatMessage" where
  "message_of_row newMessage =
     \<lparr>m_id = mr_id newMessage, m_roomId = mr_room_id newMessage,
      m_username = mr_username newMessage, m_message = mr_message newMessage,
      m_messageType = mr_message_type newMessage, m_createdAt = mr_created_at newMessage,
      m_userId = mr_user_id newMessage\<rparr>"

definition participant_of_row :: "participant_row \<Rightarrow> ChatParticipant" where
  "participant_of_row newParticipant =
     \<lparr>p_id = pr_id newParticipant, p_roomId = pr_room_id newParticipant,
      p_username = pr_username newParticipant, p_joinedAt = pr_joined_at newParticipant,
      p_lastSeen = pr_last_seen newParticipant, p_isOnline = pr_is_online newParticipant,
      p_userId = pr_user_id newParticipant\<rparr>"

text \<open>
  The handler of \<open>INSERT\<close> on \<open>chat_messages\<close>. \<open>payload.new\<close> may be missing
  (\<open>None\<close>); the handler acts only when it is there and the component is mounted.
\<close>

definition chat_messages_INSERT :: "message_row option \<Rightarrow> hook \<Rightarrow> hook" where
  "chat_messages_INSERT payload_new h =
     (case payload_new of
        None \<Rightarrow> h
      | Some newMessage \<Rightarrow>
          if isMountedRef h
          then h\<lparr>state := (state h)
                 \<lparr>messages := messages (state h) @ [message_of_row newMessage],
                  lastMessageId := Some (mr_id newMessage)\<rparr>\<rparr>
          else h)"

text \<open>The handler of \<open>INSERT\<close> on \<open>chat_participants\<close>.\<close>

definition chat_participants_INSERT :: "participant_row option \<Rightarrow> hook \<Rightarrow> hook" where
  "chat_participants_INSERT payload_new h =
     (case payload_new of
        None \<Rightarrow> h
      | Some newParticipant \<Rightarrow>
          if isMountedRef h
          then h\<lparr>state := (state h)
                 \<lparr>participants := participants (state h) @ [participant_of_row newParticipant]\<rparr>\<rparr>
          else h)"

text \<open>The handler of \<open>UPDATE\<close> on \<open>chat_participants\<close>.\<close>

definition chat_participants_UPDATE :: "participant_row option \<Rightarrow> hook \<Rightarrow> hook" where
  "chat_participants_UPDATE payload_new h =
     (case payload_new of
        None \<Rightarrow> h
      | Some updatedParticipant \<Rightarrow>
          if isMountedRef h
          then h\<lparr>state := (state h)
                 \<lparr>participants :=
                    map (\<lambda>p. if p_id p = pr_id updatedParticipant
                              then p\<lparr>p_lastSeen := pr_last_seen updatedParticipant,
                                     p_isOnline := pr_is_online updatedParticipant\<rparr>
                              else p)
                        (participants (state h))\<rparr>\<rparr>
          else h)"

text \<open>
  The callback given to \<open>subscribe\<close>: it records whether the channel is subscribed and,
  on \<open>CHANNEL_ERROR\<close> or \<open>TIMED_OUT\<close>, asks for a timer that calls \<open>reconnect\<close> and
  keeps its handle in \<open>reconnectTimeoutRef\<close>.
\<close>

definition subscribe_status :: "string \<Rightarrow> hook \<Rightarrow> hook" where
  "subscribe_status status h =
     (let h1 = setConnected (status = ''SUBSCRIBED'') h
      in if status = ''CHANNEL_ERROR'' \<or> status = ''TIMED_OUT''
         then h1\<lparr>reconnectTimeoutRef := Some (length (timers h1)),
                 timers := timers h1 @ [(Reconnect, RECONNECT_DELAY)]\<rparr>
         else h1)"

text \<open>
  \<open>fetchParticipants\<close> from its \<open>await\<close> on: the list of the response replaces the
  participants as it is.
\<close>

definition fetchParticipants_end ::
  "string \<Rightarrow> int \<Rightarrow> (string + ChatParticipant list) \<Rightarrow> hook \<Rightarrow> hook" where
  "fetchParticipants_end roomId now result h =
     (if roomId = [] then h
      else case result of
             Inr ps \<Rightarrow>
               if isMountedRef h then h\<lparr>state := (state h)\<lparr>participants := ps\<rparr>\<rparr> else h
           | Inl msg \<Rightarrow> setError (Some (createError now ''FETCH_PARTICIPANTS_FAILED'' msg)) h)"

subsection \<open>Observations used in the properties\<close>

text \<open>The number of calls of \<open>fetch\<close> in a run of \<open>makeRequest\<close>, and its delays in order.\<close>

definition fetches :: "request_event list \<Rightarrow> nat" where
  "fetches evs = length (filter (\<lambda>e. case e of Fetch u \<Rightarrow> True | Sleep d \<Rightarrow> False) evs)"

definition sleeps :: "request_event list \<Rightarrow> nat list" where
  "sleeps evs = concat (map (\<lambda>e. case e of Fetch u \<Rightarrow> [] | Sleep d \<Rightarrow> [d]) evs)"

text \<open>
  The state property of claim C1: every message id at most once, the messages in
  ascending order of \<open>createdAt\<close>, every participant id at most once.
\<close>

definition chat_invariant :: "(string \<Rightarrow> int) \<Rightarrow> ChatState \<Rightarrow> bool" where
  "chat_invariant getTime s \<longleftrightarrow>
     distinct (map m_id (messages s)) \<and>
     sorted (map (\<lambda>m. getTime (m_createdAt m)) (messages s)) \<and>
     distinct (map p_id (participants s))"

section \<open>The upload route: \<open>src/app/api/files/upload/route.ts\<close>\<close>

subsection \<open>Values of the platform\<close>

text \<open>
  An awaited call either returns or throws. The handler catches every exception in one
  place and does not look at it, so the exception carries nothing here.
\<close>

datatype 'a outcome = Returns 'a | Throws

text \<open>
  A string that may be missing (\<open>null\<close> or \<open>undefined\<close>) is a \<open>string option\<close>. It
  is falsy when it is missing or empty; \<open>a || b\<close> is \<open>b\<close> exactly then.
\<close>

definition falsy :: "string option \<Rightarrow> bool" where
  "falsy v \<longleftrightarrow> v = None \<or> v = Some []"

definition or_else :: "string option \<Rightarrow> string \<Rightarrow> string" where
  "or_else v d = (case v of None \<Rightarrow> d | Some s \<Rightarrow> if s = [] then d else s)"

text \<open>
  A text of the upload route is held as the bytes of its UTF-8 encoding: form fields
  and environment variables are well-formed Unicode, so nothing is lost, and
  comparison, emptiness and concatenation are those of the text.

  A number is a double. The numbers of the handler are whole or not finite:
  \<open>NaN\<close>, the two infinities, or \<open>Num n\<close> for a whole number \<open>n\<close> that a double holds.
\<close>

datatype js_number = NaN | PosInfinity | NegInfinity | Num int

text \<open>
  \<open>round_to_double n\<close> is the whole number nearest to \<open>n\<close> that has at most 53
  significant bits, the one with an even last bit on a tie: the rounding of every
  arithmetic operation on doubles. \<open>to_double\<close> adds the sign and the overflow to
  infinity.
\<close>

fun bit_length :: "nat \<Rightarrow> nat" where
  "bit_length n = (if n = 0 then 0 else Suc (bit_length (n div 2)))"

declare bit_length.simps [simp del]

definition round_to_double :: "nat \<Rightarrow> nat" where
  "round_to_double n =
     (if n < 9007199254740992 then n
      else let s = bit_length n - 53;
               q = n div 2 ^ s;
               r = n mod 2 ^ s
           in (if 2 ^ (s - 1) < r \<or> (r = 2 ^ (s - 1) \<and> odd q) then q + 1 else q) * 2 ^ s)"

definition to_double :: "int \<Rightarrow> js_number" where
  "to_double n =
     (if 2 ^ 1024 \<le> round_to_double (nat \<bar>n\<bar>)
      then (if n < 0 then NegInfinity else PosInfinity)
      else Num (if n < 0 then - int (round_to_double (nat \<bar>n\<bar>))
                else int (round_to_double (nat \<bar>n\<bar>))))"

text \<open>
  \<open>x * c\<close> for a positive whole constant \<open>c\<close>, and \<open>a + x\<close> for a whole number \<open>a\<close>
  that a double holds: the exact result, rounded.
\<close>

definition js_times :: "js_number \<Rightarrow> int \<Rightarrow> js_number" where
  "js_times x c = (case x of Num a \<Rightarrow> to_double (a * c) | other \<Rightarrow> other)"

definition js_plus :: "int \<Rightarrow> js_number \<Rightarrow> js_number" where
  "js_plus a x = (case x of Num b \<Rightarrow> to_double (a + b) | other \<Rightarrow> other)"

text \<open>
  The white space that \<open>parseInt\<close> skips: tab, line feed, vertical tab, form feed,
  carriage return, space, U+00A0, U+1680, U+2000 to U+200A, U+2028, U+2029, U+202F,
  U+205F, U+3000 and U+FEFF, each as its UTF-8 bytes.
\<close>

definition white_space :: "string list" where
  "white_space =
     [[CHR 0x09], [CHR 0x0A], [CHR 0x0B], [CHR 0x0C], [CHR 0x0D], [CHR 0x20],
      [CHR 0xC2, CHR 0xA0],
      [CHR 0xE1, CHR 0x9A, CHR 0x80],
      [CHR 0xE2, CHR 0x80, CHR 0x80], [CHR 0xE2, CHR 0x80, CHR 0x81],
      [CHR 0xE2, CHR 0x80, CHR 0x82], [CHR 0xE2, CHR 0x80, CHR 0x83],
      [CHR 0xE2, CHR 0x80, CHR 0x84], [CHR 0xE2, CHR 0x80, CHR 0x85],
      [CHR 0xE2, CHR 0x80, CHR 0x86], [CHR 0xE2, CHR 0x80, CHR 0x87],
      [CHR 0xE2, CHR 0x80, CHR 0x88], [CHR 0xE2, CHR 0x80, CHR 0x89],
      [CHR 0xE2, CHR 0x80, CHR 0x8A],
      [CHR 0xE2, CHR 0x80, CHR 0xA8], [CHR 0xE2, CHR 0x80, CHR 0xA9],
      [CHR 0xE2, CHR 0x80, CHR 0xAF],
      [CHR 0xE2, CHR 0x81, CHR 0x9F],
      [CHR 0xE3, CHR 0x80, CHR 0x80],
      [CHR 0xEF, CHR 0xBB, CHR 0xBF]]"

function trim_start :: "string \<Rightarrow> string" where
  "trim_start s =
     (case find (\<lambda>w. prefix w s) white_space of
        None \<Rightarrow> s
      | Some w \<Rightarrow> trim_start (drop (length w) s))"
  by pat_completeness auto
termination
proof (relation "measure length")
  show "wf (measure length)" by simp
next
  fix s w :: string
  assume "find (\<lambda>w. prefix w s) white_space = Some w"
  then have "w \<in> set white_space" and "prefix w s"
    by (auto simp: find_Some_iff)
  then have "w \<noteq> []" and "length w \<le> length s"
    by (auto simp: white_space_def prefix_def)
  then show "(drop (length w) s, s) \<in> measure length"
    by (cases w) auto
qed

declare trim_start.simps [simp del]

text \<open>
  \<open>parseInt(s)\<close> with no radix: white space is skipped, a sign is read, the prefix
  \<open>0x\<close> or \<open>0X\<close> selects radix 16, and the longest run of digits of the radix is the
  number, rounded to the nearest double; with no digit the result is \<open>NaN\<close>.
  (The language lets an implementation read a decimal run from its 21st significant
  digit on as zeros; the engine of Node.js rounds the whole run, as here. The two
  agree on every run of at most 20 digits.)
\<close>

definition digit_value :: "char \<Rightarrow> nat option" where
  "digit_value = map_of
     [(CHR ''0'', 0), (CHR ''1'', 1), (CHR ''2'', 2), (CHR ''3'', 3), (CHR ''4'', 4),
      (CHR ''5'', 5), (CHR ''6'', 6), (CHR ''7'', 7), (CHR ''8'', 8), (CHR ''9'', 9),
      (CHR ''a'', 10), (CHR ''b'', 11), (CHR ''c'', 12), (CHR ''d'', 13), (CHR ''e'', 14),
      (CHR ''f'', 15), (CHR ''A'', 10), (CHR ''B'', 11), (CHR ''C'', 12), (CHR ''D'', 13),
      (CHR ''E'', 14), (CHR ''F'', 15)]"

definition is_digit :: "nat \<Rightarrow> char \<Rightarrow> bool" where
  "is_digit radix c = (case digit_value c of None \<Rightarrow> False | Some d \<Rightarrow> d < radix)"

definition digits_value :: "nat \<Rightarrow> string \<Rightarrow> nat" where
  "digits_value radix ds =
     foldl (\<lambda>acc c. case digit_value c of None \<Rightarrow> acc | Some d \<Rightarrow> acc * radix + d) 0 ds"

definition parseInt :: "string \<Rightarrow> js_number" where
  "parseInt s =
     (let t = trim_start s;
          negative = (take 1 t = ''-'');
          u = (if take 1 t = ''-'' \<or> take 1 t = ''+'' then drop 1 t else t);
          radix = (if take 2 u = ''0x'' \<or> take 2 u = ''0X'' then 16 else 10);
          v = (if take 2 u = ''0x'' \<or> take 2 u = ''0X'' then drop 2 u else u);
          ds = takeWhile (is_digit radix) v
      in if ds = [] then NaN
         else to_double (if negative then - int (digits_value radix ds)
                         else int (digits_value radix ds)))"

text \<open>
  A number written by \<open>JSON.stringify\<close>: \<open>NaN\<close> and the infinities are written as
  \<open>null\<close>.
\<close>

definition json_number :: "js_number \<Rightarrow> int option" where
  "json_number x = (case x of Num n \<Rightarrow> Some n | other \<Rightarrow> None)"

subsection \<open>The request, the environment and the services\<close>

text \<open>The \<open>File\<close> of the form: its name, its MIME type, its size and its bytes.\<close>

record upload_file =
  f_name :: string
  f_type :: string
  f_size :: nat
  f_bytes :: string

text \<open>The fields the handler reads from the form; \<open>formData.get\<close> gives \<open>null\<close> for a missing one.\<close>

record form_data =
  fd_file :: "upload_file option"
  fd_password :: "string option"
  fd_expiresIn :: "string option"
  fd_maxDownloads :: "string option"
  fd_captchaToken :: "string option"

text \<open>What the handler reads from the request besides the form.\<close>

record request =
  rq_origin :: string
  rq_clientIP :: string
  rq_userAgent :: "string option"

text \<open>The variables of \<open>process.env\<close> that decide what the handler does.\<close>

record environment =
  NEXT_PUBLIC_SUPABASE_URL :: "string option"
  NEXT_PUBLIC_APPWRITE_ENDPOINT :: "string option"
  MAX_FILE_SIZE :: "string option"
  NEXT_PUBLIC_BASE_URL :: "string option"

text \<open>
  What the handler takes from modules of the repository that are not among the sources
  at hand (\<open>@/lib/security\<close>, \<open>@/lib/appwrite\<close>, \<open>@/lib/redis\<close>): the list that
  \<open>getAllowedTypes()\<close> returns, the function \<open>validateFileType\<close>, the bucket id
  \<open>BUCKETS.FILES\<close> and the key builder \<open>REDIS_KEYS.FILE_UPLOAD\<close>. They are parameters.
\<close>

record library =
  getAllowedTypes :: "string list"
  validateFileType :: "string \<Rightarrow> string \<Rightarrow> string list \<Rightarrow> bool"
  BUCKETS_FILES :: string
  FILE_UPLOAD :: "string \<Rightarrow> string"

text \<open>
  Modelled from the spec: \<open>validateFileSize\<close> of \<open>@/lib/security\<close>, which is not among
  the sources at hand. The route answers \<open>File size exceeds limit\<close> when it returns
  false, so it accepts a size exactly when the size is not above the maximum; against
  a maximum that is \<open>NaN\<close> every comparison is false.
\<close>

definition validateFileSize :: "nat \<Rightarrow> js_number \<Rightarrow> bool" where
  "validateFileSize sz maxSize =
     (case maxSize of
        NaN \<Rightarrow> False
      | PosInfinity \<Rightarrow> True
      | NegInfinity \<Rightarrow> False
      | Num m \<Rightarrow> int sz \<le> m)"


text \<open>The result of \<open>virusScanner.scanBuffer\<close>, and the response of the storage service.\<close>

record scan_result =
  isClean :: bool
  signature :: "string option"
  scan_message :: "string option"

record storage_response =
  res_ok :: bool
  res_text :: "string outcome"
  res_json :: "unit outcome"

text \<open>
  What the services outside the handler answer during one request, each in the place
  where the handler asks: the rate limiter, the parsed form, \<open>generateId()\<close> and the
  two calls of \<open>generateSecureId()\<close>, the virus scanner, the storage service,
  \<open>Date.now()\<close> at the expiry calculation, the clock at \<open>uploaded_at\<close>, the error of
  the insert into \<open>files\<close> (its message, \<open>None\<close> for success) and \<open>setWithExpiry\<close>.
  An insert through the database client returns its error and does not throw.
\<close>

record services =
  sv_isAllowed :: "bool outcome"
  sv_formData :: "form_data outcome"
  sv_fileId :: string
  sv_downloadToken :: string
  sv_editToken :: string
  sv_scan :: "scan_result outcome"
  sv_storage :: "storage_response outcome"
  sv_now :: int
  sv_uploadedAt :: int
  sv_fileInsertError :: "string option"
  sv_setWithExpiry :: "unit outcome"

subsection \<open>What the handler writes\<close>

text \<open>
  A row of \<open>audit_logs\<close> with its metadata, a row of \<open>files\<close>, and the value cached for
  a download token (\<open>JSON.stringify({ fileId, editToken })\<close>, kept as its two fields).
  A date written by \<open>toISOString\<close> is kept as its time in milliseconds.
  \<open>max_downloads\<close> is \<open>None\<close> for \<open>null\<close>, as which JSON also writes a number that
  is not finite.
\<close>

datatype audit_metadata =
    VirusMetadata string "string option" "string option"
  | UploadMetadata string nat string

record audit_row =
  a_action :: string
  a_resource_type :: string
  a_resource_id :: string
  a_ip_address :: string
  a_user_agent :: "string option"
  a_metadata :: audit_metadata

record file_row =
  original_name :: string
  row_size :: nat
  mime_type :: string
  download_token :: string
  edit_token :: string
  password :: "string option"
  expiry_date :: "int option"
  max_downloads :: "int option"
  download_count :: nat
  is_active :: bool
  uploaded_at :: int
  uploaded_by :: string
  last_downloaded_at :: "int option"

record cache_value =
  cv_fileId :: string
  cv_editToken :: string

text \<open>
  The calls the handler makes to its collaborators, in the order it makes them. A call
  that writes carries what it writes and whether the write took place.
\<close>

datatype call =
    IsAllowed
  | ReadFormData
  | ValidateFileType string string
  | ValidateFileSize nat js_number
  | ScanBuffer string
  | InsertAuditLog audit_row
  | CreateFile string string upload_file bool
  | InsertFile file_row bool
  | SetWithExpiry string cache_value nat bool

text \<open>The JSON responses: an error with its status and optional details, or the success body.\<close>

record success_body =
  sb_fileId :: string
  sb_downloadUrl :: string
  sb_editUrl :: string
  sb_name :: string
  sb_size :: nat
  sb_type :: string

datatype response =
    ErrorResponse nat string "string option"
  | SuccessResponse success_body

subsection \<open>POST\<close>

text \<open>The response of the \<open>catch\<close> block.\<close>

definition upload_failed :: response where
  "upload_failed = ErrorResponse 500 ''Upload failed. Please try again.'' None"

text \<open>The configuration check that stands before the \<open>try\<close> block.\<close>

definition misconfigured :: "environment \<Rightarrow> bool" where
  "misconfigured env \<longleftrightarrow>
     falsy (NEXT_PUBLIC_SUPABASE_URL env) \<or>
     NEXT_PUBLIC_SUPABASE_URL env = Some ''https://placeholder.supabase.co'' \<or>
     falsy (NEXT_PUBLIC_APPWRITE_ENDPOINT env) \<or>
     NEXT_PUBLIC_APPWRITE_ENDPOINT env = Some ''https://placeholder.appwrite.io/v1''"

text \<open>
  The expiry calculation under \<open>expiresIn && expiresIn !== 'never'\<close>:
  \<open>Date.now() + hours * 60 * 60 * 1000\<close> in doubles, where \<open>Date.now()\<close> is a whole
  number of milliseconds that a double holds. \<open>new Date(t).toISOString()\<close> throws a
  \<open>RangeError\<close> when \<open>t\<close> is not finite or more than 8.64e15 milliseconds away from
  the epoch.
\<close>

definition expiry :: "string option \<Rightarrow> int \<Rightarrow> int option outcome" where
  "expiry expiresIn now =
     (case expiresIn of
        None \<Rightarrow> Returns None
      | Some e \<Rightarrow>
          if e \<noteq> [] \<and> e \<noteq> ''never''
          then (case js_plus now (js_times (js_times (js_times (parseInt e) 60) 60) 1000) of
                  Num t \<Rightarrow>
                    if \<bar>t\<bar> \<le> 8640000000000000 then Returns (Some t) else Throws
                | other \<Rightarrow> Throws)
          else Returns None)"

text \<open>
  The row given to \<open>supabaseAdmin.from('files').insert\<close>, with \<open>password || null\<close>
  and \<open>maxDownloads ? parseInt(maxDownloads) : null\<close>.
\<close>

definition new_file_row ::
  "services \<Rightarrow> request \<Rightarrow> form_data \<Rightarrow> upload_file \<Rightarrow> int option \<Rightarrow> file_row" where
  "new_file_row sv rq form file expiryDate =
     \<lparr>original_name = f_name file,
      row_size = f_size file,
      mime_type = f_type file,
      download_token = sv_downloadToken sv,
      edit_token = sv_editToken sv,
      password = (case fd_password form of
                    None \<Rightarrow> None
                  | Some p \<Rightarrow> if p = [] then None else Some p),
      expiry_date = expiryDate,
      max_downloads = (case fd_maxDownloads form of
                         None \<Rightarrow> None
                       | Some m \<Rightarrow> if m = [] then None else json_number (parseInt m)),
      download_count = 0,
      is_active = True,
      uploaded_at = sv_uploadedAt sv,
      uploaded_by = rq_clientIP rq,
      last_downloaded_at = None\<rparr>"

text \<open>The two audit rows.\<close>

definition virus_audit_row :: "services \<Rightarrow> request \<Rightarrow> upload_file \<Rightarrow> scan_result \<Rightarrow> audit_row" where
  "virus_audit_row sv rq file scanResult =
     \<lparr>a_action = ''virus_detected'', a_resource_type = ''file'', a_resource_id = sv_fileId sv,
      a_ip_address = rq_clientIP rq, a_user_agent = rq_userAgent rq,
      a_metadata = VirusMetadata (f_name file) (signature scanResult) (scan_message scanResult)\<rparr>"

definition upload_audit_row :: "services \<Rightarrow> request \<Rightarrow> upload_file \<Rightarrow> audit_row" where
  "upload_audit_row sv rq file =
     \<lparr>a_action = ''file_upload'', a_resource_type = ''file'', a_resource_id = sv_fileId sv,
      a_ip_address = rq_clientIP rq, a_user_agent = rq_userAgent rq,
      a_metadata = UploadMetadata (f_name file) (f_size file) (f_type file)\<rparr>"

text \<open>The success body, with \<open>baseUrl = process.env.NEXT_PUBLIC_BASE_URL || request.nextUrl.origin\<close>.\<close>

definition success_response :: "environment \<Rightarrow> services \<Rightarrow> request \<Rightarrow> upload_file \<Rightarrow> response" where
  "success_response env sv rq file =
     SuccessResponse
       \<lparr>sb_fileId = sv_fileId sv,
        sb_downloadUrl = or_else (NEXT_PUBLIC_BASE_URL env) (rq_origin rq) @ ''/files/'' @ sv_downloadToken sv,
        sb_editUrl = or_else (NEXT_PUBLIC_BASE_URL env) (rq_origin rq) @ ''/files/manage/'' @ sv_editToken sv,
        sb_name = f_name file, sb_size = f_size file, sb_type = f_type file\<rparr>"

text \<open>
  The handler is one function in the source. Here it is cut at its comments into
  stages, each taking the calls made so far and ending in the next stage; every stage
  returns the response and all calls made.

  Lines 193 to 214: the tokens are cached for \<open>24 * 60 * 60\<close> seconds and the success
  body is returned.
\<close>

definition cache_tokens ::
  "library \<Rightarrow> environment \<Rightarrow> services \<Rightarrow> request \<Rightarrow> upload_file \<Rightarrow> call list \<Rightarrow>
   response \<times> call list" where
  "cache_tokens lib env sv rq file made =
     (case sv_setWithExpiry sv of
        Throws \<Rightarrow>
          (upload_failed,
           made @ [SetWithExpiry (FILE_UPLOAD lib (sv_downloadToken sv))
                     \<lparr>cv_fileId = sv_fileId sv, cv_editToken = sv_editToken sv\<rparr>
                     (24 * 60 * 60) False])
      | Returns u \<Rightarrow>
          (success_response env sv rq file,
           made @ [SetWithExpiry (FILE_UPLOAD lib (sv_downloadToken sv))
                     \<lparr>cv_fileId = sv_fileId sv, cv_editToken = sv_editToken sv\<rparr>
                     (24 * 60 * 60) True]))"

text \<open>Lines 146 to 191: the expiry, the insert into \<open>files\<close>, the audit row of the upload.\<close>

definition save_metadata ::
  "library \<Rightarrow> environment \<Rightarrow> services \<Rightarrow> request \<Rightarrow> form_data \<Rightarrow> upload_file \<Rightarrow> call list \<Rightarrow>
   response \<times> call list" where
  "save_metadata lib env sv rq form file made =
     (case expiry (fd_expiresIn form) (sv_now sv) of
        Throws \<Rightarrow> (upload_failed, made)
      | Returns expiryDate \<Rightarrow>
          (case sv_fileInsertError sv of
             Some msg \<Rightarrow>
               (ErrorResponse 500 ''Failed to save file metadata in Supabase'' (Some msg),
                made @ [InsertFile (new_file_row sv rq form file expiryDate) False])
           | None \<Rightarrow>
               cache_tokens lib env sv rq file
                 (made @ [InsertFile (new_file_row sv rq form file expiryDate) True,
                          InsertAuditLog (upload_audit_row sv rq file)])))"

text \<open>Lines 120 to 144: the upload of the bytes to the storage bucket.\<close>

definition store_binary ::
  "library \<Rightarrow> environment \<Rightarrow> services \<Rightarrow> request \<Rightarrow> form_data \<Rightarrow> upload_file \<Rightarrow> call list \<Rightarrow>
   response \<times> call list" where
  "store_binary lib env sv rq form file made =
     (case sv_storage sv of
        Throws \<Rightarrow>
          (upload_failed, made @ [CreateFile (BUCKETS_FILES lib) (sv_fileId sv) file False])
      | Returns res \<Rightarrow>
          if \<not> res_ok res
          then (case res_text res of
                  Throws \<Rightarrow>
                    (upload_failed,
                     made @ [CreateFile (BUCKETS_FILES lib) (sv_fileId sv) file False])
                | Returns errText \<Rightarrow>
                    (ErrorResponse 500 ''Appwrite upload failed'' (Some errText),
                     made @ [CreateFile (BUCKETS_FILES lib) (sv_fileId sv) file False]))
          else (case res_json res of
                  Throws \<Rightarrow>
                    (upload_failed,
                     made @ [CreateFile (BUCKETS_FILES lib) (sv_fileId sv) file True])
                | Returns u \<Rightarrow>
                    save_metadata lib env sv rq form file
                      (made @ [CreateFile (BUCKETS_FILES lib) (sv_fileId sv) file True])))"

text \<open>Lines 87 to 115: the ids, the buffer and the virus scan.\<close>

definition scan_file ::
  "library \<Rightarrow> environment \<Rightarrow> services \<Rightarrow> request \<Rightarrow> form_data \<Rightarrow> upload_file \<Rightarrow> call list \<Rightarrow>
   response \<times> call list" where
  "scan_file lib env sv rq form file made =
     (case sv_scan sv of
        Throws \<Rightarrow> (upload_failed, made @ [ScanBuffer (f_bytes file)])
      | Returns scanResult \<Rightarrow>
          if \<not> isClean scanResult
          then (ErrorResponse 400 ''File contains malicious content and cannot be uploaded'' None,
                made @ [ScanBuffer (f_bytes file),
                        InsertAuditLog (virus_audit_row sv rq file scanResult)])
          else store_binary lib env sv rq form file (made @ [ScanBuffer (f_bytes file)]))"

text \<open>Lines 70 to 85: the type and the size of the file.\<close>

definition validate_file ::
  "library \<Rightarrow> environment \<Rightarrow> services \<Rightarrow> request \<Rightarrow> form_data \<Rightarrow> upload_file \<Rightarrow> call list \<Rightarrow>
   response \<times> call list" where
  "validate_file lib env sv rq form file made =
     (let maxSize = parseInt (or_else (MAX_FILE_SIZE env) ''104857600'')
      in if \<not> validateFileType lib (f_name file) (f_type file) (getAllowedTypes lib)
         then (ErrorResponse 400 ''File type not allowed'' None,
               made @ [ValidateFileType (f_name file) (f_type file)])
         else if \<not> validateFileSize (f_size file) maxSize
         then (ErrorResponse 400 ''File size exceeds limit'' None,
               made @ [ValidateFileType (f_name file) (f_type file),
                       ValidateFileSize (f_size file) maxSize])
         else scan_file lib env sv rq form file
                (made @ [ValidateFileType (f_name file) (f_type file),
                         ValidateFileSize (f_size file) maxSize]))"

text \<open>Lines 12 to 46 and the \<open>catch\<close> block: configuration, rate limit, form, file.\<close>

definition POST :: "library \<Rightarrow> environment \<Rightarrow> services \<Rightarrow> request \<Rightarrow> response \<times> call list" where
  "POST lib env sv rq =
     (if misconfigured env
      then (ErrorResponse 503 ''Service not properly configured'' None, [])
      else case sv_isAllowed sv of
             Throws \<Rightarrow> (upload_failed, [IsAllowed])
           | Returns allowed \<Rightarrow>
               if \<not> allowed
               then (ErrorResponse 429 ''Too many upload attempts. Please try again later.'' None,
                     [IsAllowed])
               else (case sv_formData sv of
                       Throws \<Rightarrow> (upload_failed, [IsAllowed, ReadFormData])
                     | Returns form \<Rightarrow>
                         (case fd_file form of
                            None \<Rightarrow>
                              (ErrorResponse 400 ''No file provided'' None,
                               [IsAllowed, ReadFormData])
                          | Some file \<Rightarrow>
                              validate_file lib env sv rq form file [IsAllowed, ReadFormData])))"

subsection \<open>The stores behind the calls\<close>

text \<open>
  The storage bucket, the tables \<open>files\<close> and \<open>audit_logs\<close>, and the cache with the
  time-to-live of each key in seconds. A call changes a store when it is a write that
  took place.
\<close>

record stores =
  bucket :: "(string \<times> upload_file) list"
  files :: "file_row list"
  audit_logs :: "audit_row list"
  cache :: "string \<rightharpoonup> cache_value \<times> nat"

fun apply_call :: "stores \<Rightarrow> call \<Rightarrow> stores" where
  "apply_call w (CreateFile b fileId file stored) =
     (if stored then w\<lparr>bucket := bucket w @ [(fileId, file)]\<rparr> else w)"
| "apply_call w (InsertFile row stored) =
     (if stored then w\<lparr>files := files w @ [row]\<rparr> else w)"
| "apply_call w (InsertAuditLog row) = w\<lparr>audit_logs := audit_logs w @ [row]\<rparr>"
| "apply_call w (SetWithExpiry k v ttl stored) =
     (if stored then w\<lparr>cache := (cache w)(k \<mapsto> (v, ttl))\<rparr> else w)"
| "apply_call w IsAllowed = w"
| "apply_call w ReadFormData = w"
| "apply_call w (ValidateFileType n t) = w"
| "apply_call w (ValidateFileSize sz m) = w"
| "apply_call w (ScanBuffer b) = w"

definition stores_after :: "stores \<Rightarrow> call list \<Rightarrow> stores" where
  "stores_after w calls = foldl apply_call w calls"

text \<open>
  The steps that claim C4 orders, and the step that a call belongs to. The audit rows,
  the rate limit and the reading of the form are none of them.
\<close>

datatype step = TypeValidation | SizeValidation | MalwareScan | StoreBinary | WriteMetadata | CacheTokens

fun step_of :: "call \<Rightarrow> step option" where
  "step_of (ValidateFileType n t) = Some TypeValidation"
| "step_of (ValidateFileSize sz m) = Some SizeValidation"
| "step_of (ScanBuffer b) = Some MalwareScan"
| "step_of (CreateFile b fileId file stored) = Some StoreBinary"
| "step_of (InsertFile row stored) = Some WriteMetadata"
| "step_of (SetWithExpiry k v ttl stored) = Some CacheTokens"
| "step_of IsAllowed = None"
| "step_of ReadFormData = None"
| "step_of (InsertAuditLog row) = None"

definition steps :: "call list \<Rightarrow> step list" where
  "steps calls = List.map_filter step_of calls"

definition upload_steps :: "step list" where
  "upload_steps =
     [TypeValidation, SizeValidation, MalwareScan, StoreBinary, WriteMetadata, CacheTokens]"

section \<open>Properties of the management page\<close>

lemma filter_neq_append_absent:
  "t \<notin> set xs \<Longrightarrow> filter (\<lambda>token. token \<noteq> t) (xs @ [t]) = xs"
  by (induction xs) auto

lemma filter_neq_absent:
  "t \<notin> set xs \<Longrightarrow> filter (\<lambda>token. token \<noteq> t) xs = xs"
  by (induction xs) auto

text \<open>
  C9. For a file token \<open>t\<close> that is not in \<open>filesToDelete\<close>, marking it for deletion
  and then undoing the deletion gives back the page state it started from, so
  \<open>filesToDelete\<close> has exactly its original value; and undoing a token that is not in
  the list changes nothing.
\<close>

theorem delete_then_undo_restores:
  "t \<notin> set (filesToDelete s) \<Longrightarrow>
     handleUndoDeleteExistingFile t (handleDeleteExistingFile t s) = s \<and>
     filesToDelete (handleUndoDeleteExistingFile t (handleDeleteExistingFile t s)) = filesToDelete s \<and>
     handleUndoDeleteExistingFile t s = s"
  by (simp add: handleUndoDeleteExistingFile_def handleDeleteExistingFile_def
      filter_neq_append_absent filter_neq_absent)

theorem delete_then_undo_restores_witness:
  "''tok-c'' \<notin> set [''tok-a'', ''tok-b''] \<and>
   filesToDelete (handleUndoDeleteExistingFile ''tok-c'' (handleDeleteExistingFile ''tok-c''
     \<lparr>editToken = ''0123456789'', isAuthenticated = True, pageError = [],
      filesToDelete = [''tok-a'', ''tok-b'']\<rparr>)) = [''tok-a'', ''tok-b'']"
  using delete_then_undo_restores [of "''tok-c''"
      "\<lparr>editToken = ''0123456789'', isAuthenticated = True, pageError = [],
        filesToDelete = [''tok-a'', ''tok-b'']\<rparr>"]
  by simp

text \<open>
  C3, as the claim states it, fails: a page that is not yet authenticated accepts the
  ten characters \<open>0123456789\<close>, whatever the edit token of the file is (here
  \<open>Zx81mQp4TtY7cVb2\<close>, which differs from the text entered).
\<close>

theorem handleAuthenticate_accepts_other_token:
  "isAuthenticated (handleAuthenticate
      \<lparr>editToken = ''0123456789'', isAuthenticated = False, pageError = [],
       filesToDelete = []\<rparr>) \<and>
   ''0123456789'' \<noteq> ''Zx81mQp4TtY7cVb2''"
  by (simp add: handleAuthenticate_def)

text \<open>
  C3, amended. On a page that is not yet authenticated, \<open>handleAuthenticate\<close> grants
  access exactly when the text entered has at least ten characters; the edit token of
  the file is not consulted. With fewer characters access stays denied and the error
  is \<open>Invalid edit token.\<close>; on success the error is cleared. The text entered and
  the deletion list are not touched.
\<close>

theorem handleAuthenticate_length_gate:
  "\<not> isAuthenticated s \<Longrightarrow>
     (isAuthenticated (handleAuthenticate s) \<longleftrightarrow> 10 \<le> length (editToken s)) \<and>
     (10 \<le> length (editToken s) \<longrightarrow> pageError (handleAuthenticate s) = []) \<and>
     (length (editToken s) < 10 \<longrightarrow> pageError (handleAuthenticate s) = ''Invalid edit token.'') \<and>
     editToken (handleAuthenticate s) = editToken s \<and>
     filesToDelete (handleAuthenticate s) = filesToDelete s"
  by (auto simp: handleAuthenticate_def)

theorem handleAuthenticate_length_gate_witness:
  "\<not> isAuthenticated \<lparr>editToken = ''short'', isAuthenticated = False, pageError = [],
       filesToDelete = []\<rparr> \<and>
   \<not> isAuthenticated (handleAuthenticate
      \<lparr>editToken = ''short'', isAuthenticated = False, pageError = [],
       filesToDelete = []\<rparr>) \<and>
   pageError (handleAuthenticate
      \<lparr>editToken = ''short'', isAuthenticated = False, pageError = [],
       filesToDelete = []\<rparr>) = ''Invalid edit token.'' \<and>
   isAuthenticated (handleAuthenticate
      \<lparr>editToken = ''any-10-chars'', isAuthenticated = False, pageError = ''Invalid edit token.'',
       filesToDelete = []\<rparr>)"
  using handleAuthenticate_length_gate [of
      "\<lparr>editToken = ''short'', isAuthenticated = False, pageError = [], filesToDelete = []\<rparr>"]
    handleAuthenticate_length_gate [of
      "\<lparr>editToken = ''any-10-chars'', isAuthenticated = False,
        pageError = ''Invalid edit token.'', filesToDelete = []\<rparr>"]
  by simp

subsection \<open>formatFileSize\<close>

text \<open>\<open>exact_floor_log\<close> is the floor of the logarithm to base 1024.\<close>

lemma div_1024_le: "(a::nat) \<le> b div 1024 \<Longrightarrow> 1024 * a \<le> b"
  by arith

lemma div_1024_less: "b div 1024 < (c::nat) \<Longrightarrow> b < 1024 * c"
  by arith

lemma exact_floor_log_bracket:
  "0 < n \<Longrightarrow> 1024 ^ exact_floor_log n \<le> n \<and> n < 1024 ^ Suc (exact_floor_log n)"
proof (induction n rule: exact_floor_log.induct)
  case (1 bytes)
  show ?case
  proof (cases "bytes < 1024")
    case True
    with 1 show ?thesis by (simp add: exact_floor_log.simps)
  next
    case False
    then have pos: "0 < bytes div 1024" by simp
    have ih: "1024 ^ exact_floor_log (bytes div 1024) \<le> bytes div 1024 \<and>
        bytes div 1024 < 1024 ^ Suc (exact_floor_log (bytes div 1024))"
      using 1 False pos by simp
    have eq: "exact_floor_log bytes = Suc (exact_floor_log (bytes div 1024))"
      using False by (simp add: exact_floor_log.simps)
    from ih have "1024 * 1024 ^ exact_floor_log (bytes div 1024) \<le> bytes"
      by (intro div_1024_le) simp
    moreover from ih have "bytes < 1024 * 1024 ^ Suc (exact_floor_log (bytes div 1024))"
      by (intro div_1024_less) simp
    ultimately show ?thesis using eq by simp
  qed
qed

lemma exact_floor_log_less_4_iff:
  assumes "0 < n"
  shows "exact_floor_log n < 4 \<longleftrightarrow> n < 1024 ^ 4"
proof
  assume "exact_floor_log n < 4"
  then have "Suc (exact_floor_log n) \<le> 4" by simp
  then have "(1024::nat) ^ Suc (exact_floor_log n) \<le> 1024 ^ 4"
    by (intro power_increasing) simp_all
  with exact_floor_log_bracket [OF assms] show "n < 1024 ^ 4" by linarith
next
  assume "n < 1024 ^ 4"
  with exact_floor_log_bracket [OF assms] have "(1024::nat) ^ exact_floor_log n < 1024 ^ 4"
    by linarith
  then show "exact_floor_log n < 4"
    by (rule power_less_imp_less_exp [rotated]) simp
qed

text \<open>\<open>hundredths\<close> rounds the quotient to the nearest hundredth, a tie upwards.\<close>

lemma hundredths_rounds:
  "hundredths n i * (2 * 1024 ^ i) \<le> 200 * n + 1024 ^ i \<and>
   200 * n + 1024 ^ i < (hundredths n i + 1) * (2 * 1024 ^ i)"
proof -
  have pos: "0 < (2::nat) * 1024 ^ i" by simp
  show ?thesis
    unfolding hundredths_def
    using pos div_times_less_eq_dividend [of "200 * n + 1024 ^ i" "2 * 1024 ^ i"]
      dividend_less_div_times [OF pos, of "200 * n + 1024 ^ i"]
    by (simp add: algebra_simps)
qed

text \<open>
  Below \<open>1024 ^ 4\<close> bytes, on a platform whose index is the exact floor of the
  logarithm, the text is the rounded quotient, a space, and a unit of the list.
\<close>

lemma formatFileSize_below_1024_GB:
  assumes "0 < n" and "n < 1024 ^ 4" and "floor_log n = exact_floor_log n"
  shows "floor_log n < length sizes \<and>
    1024 ^ floor_log n \<le> n \<and> n < 1024 ^ Suc (floor_log n) \<and>
    formatFileSize floor_log n =
      show_hundredths (hundredths n (floor_log n)) @ '' '' @ sizes ! floor_log n"
proof -
  from assms(1,2) have lt: "exact_floor_log n < 4"
    using exact_floor_log_less_4_iff [of n] by simp
  with assms(1,3) exact_floor_log_bracket [OF assms(1)] show ?thesis
    by (simp add: formatFileSize_def size_unit_def sizes_def Let_def)
qed

text \<open>
  C10. The claim that \<open>formatFileSize\<close> names a defined unit for every byte count does
  not hold of the code. Whenever the index that the platform computes for a byte count
  \<open>n > 0\<close> is not below the length of the unit list, the text returned is the rounded
  quotient followed by \<open>undefined\<close> in the place of the unit. The exact floor of the
  logarithm to base 1024 is not below the length of the list for any \<open>n\<close> from
  \<open>1024 ^ 4\<close> on. At two tebibytes, \<open>n = 2199023255552 = 2 ^ 41\<close>, where the
  quotient of the logarithms is 4.1 and the index is 4 on a platform that computes the
  exact floor there, the text returned is \<open>2 undefined\<close>.
\<close>

theorem formatFileSize_unit_undefined:
  "(0 < n \<and> length sizes \<le> floor_log n \<longrightarrow>
      formatFileSize floor_log n =
        show_hundredths (hundredths n (floor_log n)) @ '' undefined'') \<and>
   (1024 ^ 4 \<le> n \<longrightarrow> length sizes \<le> exact_floor_log n) \<and>
   (floor_log 2199023255552 = exact_floor_log 2199023255552 \<longrightarrow>
      formatFileSize floor_log 2199023255552 = ''2 undefined'')"
proof (intro conjI impI)
  assume "0 < n \<and> length sizes \<le> floor_log n"
  then show "formatFileSize floor_log n =
      show_hundredths (hundredths n (floor_log n)) @ '' undefined''"
    by (simp add: formatFileSize_def size_unit_def Let_def)
next
  assume large: "1024 ^ 4 \<le> n"
  then have "0 < n" by simp
  from exact_floor_log_less_4_iff [OF this] large show "length sizes \<le> exact_floor_log n"
    by (simp add: sizes_def)
next
  assume "floor_log 2199023255552 = exact_floor_log 2199023255552"
  then have "floor_log 2199023255552 = 4"
    by (simp add: exact_floor_log.simps)
  then show "formatFileSize floor_log 2199023255552 = ''2 undefined''"
    by (simp add: formatFileSize_def hundredths_def show_hundredths_def show_nat.simps
        size_unit_def sizes_def digit_char_def)
qed

theorem formatFileSize_unit_undefined_witness:
  "(0::nat) < 2199023255552 \<and> (1024::nat) ^ 4 \<le> 2199023255552 \<and>
   length sizes \<le> exact_floor_log 2199023255552 \<and>
   hundredths 2199023255552 (exact_floor_log 2199023255552) = 200 \<and>
   formatFileSize exact_floor_log 2199023255552 = ''2 undefined''"
proof -
  have index: "exact_floor_log 2199023255552 = 4"
    by (simp add: exact_floor_log.simps)
  have quotient: "hundredths 2199023255552 4 = 200"
    by (simp add: hundredths_def)
  from formatFileSize_unit_undefined [of 2199023255552 exact_floor_log] index quotient
  show ?thesis
    by simp
qed

section \<open>Properties of the chat hook\<close>

text \<open>
  C7. A realtime \<open>UPDATE\<close> of \<open>chat_participants\<close> that carries the row \<open>u\<close> leaves
  the messages and every other field of the chat state as they are, and the refs and
  timers of the hook too. The participant list keeps its length and its order; an entry
  whose id differs from that of \<open>u\<close> is unchanged; an entry whose id equals it gets
  the \<open>lastSeen\<close> and \<open>isOnline\<close> of \<open>u\<close> and keeps its id, room, user name, joining
  time and user id. Without a row, or after unmounting, nothing changes at all.
\<close>

theorem chat_participants_UPDATE_frame:
  "messages (state (chat_participants_UPDATE (Some u) h)) = messages (state h) \<and>
   isConnected (state (chat_participants_UPDATE (Some u) h)) = isConnected (state h) \<and>
   isLoading (state (chat_participants_UPDATE (Some u) h)) = isLoading (state h) \<and>
   error (state (chat_participants_UPDATE (Some u) h)) = error (state h) \<and>
   lastMessageId (state (chat_participants_UPDATE (Some u) h)) = lastMessageId (state h) \<and>
   isMountedRef (chat_participants_UPDATE (Some u) h) = isMountedRef h \<and>
   reconnectTimeoutRef (chat_participants_UPDATE (Some u) h) = reconnectTimeoutRef h \<and>
   timers (chat_participants_UPDATE (Some u) h) = timers h \<and>
   length (participants (state (chat_participants_UPDATE (Some u) h))) =
     length (participants (state h)) \<and>
   (\<forall>i<length (participants (state h)).
      (p_id (participants (state h) ! i) \<noteq> pr_id u \<longrightarrow>
         participants (state (chat_participants_UPDATE (Some u) h)) ! i =
           participants (state h) ! i) \<and>
      (p_id (participants (state h) ! i) = pr_id u \<and> isMountedRef h \<longrightarrow>
         participants (state (chat_participants_UPDATE (Some u) h)) ! i =
           (participants (state h) ! i)
             \<lparr>p_lastSeen := pr_last_seen u, p_isOnline := pr_is_online u\<rparr>) \<and>
      p_id (participants (state (chat_participants_UPDATE (Some u) h)) ! i) =
        p_id (participants (state h) ! i) \<and>
      p_roomId (participants (state (chat_participants_UPDATE (Some u) h)) ! i) =
        p_roomId (participants (state h) ! i) \<and>
      p_username (participants (state (chat_participants_UPDATE (Some u) h)) ! i) =
        p_username (participants (state h) ! i) \<and>
      p_joinedAt (participants (state (chat_participants_UPDATE (Some u) h)) ! i) =
        p_joinedAt (participants (state h) ! i) \<and>
      p_userId (participants (state (chat_participants_UPDATE (Some u) h)) ! i) =
        p_userId (participants (state h) ! i)) \<and>
   chat_participants_UPDATE None h = h \<and>
   (\<not> isMountedRef h \<longrightarrow> chat_participants_UPDATE (Some u) h = h)"
  by (simp add: chat_participants_UPDATE_def)

theorem chat_participants_UPDATE_frame_witness:
  "participants (state (chat_participants_UPDATE
      (Some \<lparr>pr_id = ''p-1'', pr_room_id = ''room-1'', pr_username = ''ann'',
           pr_joined_at = ''2024-05-01T10:00:00Z'', pr_last_seen = ''2024-05-01T10:00:05Z'',
           pr_is_online = False, pr_user_id = None\<rparr>)
      \<lparr>state = \<lparr>messages = [],
        participants =
          [\<lparr>p_id = ''p-1'', p_roomId = ''room-1'', p_username = ''ann'',
            p_joinedAt = ''2024-05-01T10:00:00Z'', p_lastSeen = ''2024-05-01T10:00:00Z'',
            p_isOnline = True, p_userId = None\<rparr>,
           \<lparr>p_id = ''p-2'', p_roomId = ''room-1'', p_username = ''bob'',
            p_joinedAt = ''2024-05-01T10:00:01Z'', p_lastSeen = ''2024-05-01T10:00:01Z'',
            p_isOnline = True, p_userId = Some ''u-2''\<rparr>],
        isConnected = True, isLoading = False, error = None, lastMessageId = None\<rparr>,
      isMountedRef = True, reconnectTimeoutRef = None, timers = []\<rparr>)) =
     [\<lparr>p_id = ''p-1'', p_roomId = ''room-1'', p_username = ''ann'',
       p_joinedAt = ''2024-05-01T10:00:00Z'', p_lastSeen = ''2024-05-01T10:00:05Z'',
       p_isOnline = False, p_userId = None\<rparr>,
      \<lparr>p_id = ''p-2'', p_roomId = ''room-1'', p_username = ''bob'',
       p_joinedAt = ''2024-05-01T10:00:01Z'', p_lastSeen = ''2024-05-01T10:00:01Z'',
       p_isOnline = True, p_userId = Some ''u-2''\<rparr>]"
  (is "participants (state (chat_participants_UPDATE (Some ?u) ?h)) = _")
proof -
  have len: "length (participants (state ?h)) = 2"
    by simp
  from chat_participants_UPDATE_frame [of ?u ?h]
  have "length (participants (state (chat_participants_UPDATE (Some ?u) ?h))) = 2"
    and "\<forall>i<2. participants (state (chat_participants_UPDATE (Some ?u) ?h)) ! i =
      (if p_id (participants (state ?h) ! i) = pr_id ?u
       then (participants (state ?h) ! i)
              \<lparr>p_lastSeen := pr_last_seen ?u, p_isOnline := pr_is_online ?u\<rparr>
       else participants (state ?h) ! i)"
    unfolding len by auto
  then show ?thesis
    by (simp add: list_eq_iff_nth_eq less_Suc_eq numeral_2_eq_2)
qed

text \<open>
  C1, as the claim states it, fails. The hook below holds one message and one
  participant, as after the initial fetch, and has the property of the claim. A
  realtime \<open>INSERT\<close> event for the message it already holds leaves its id in the list
  twice; one for a message with an earlier \<open>createdAt\<close> leaves the list out of order;
  one for the participant it already holds leaves that id in the list twice.
\<close>

theorem realtime_insert_breaks_invariant:
  "chat_invariant (\<lambda>s. if s = ''2024-05-01T10:00:02Z'' then (1714557602000::int) else 1714557601000) (state \<lparr>state = \<lparr>messages =
          [\<lparr>m_id = ''msg-1'', m_roomId = ''room-1'', m_username = ''ann'', m_message = ''hello'',
            m_messageType = ''text'', m_createdAt = ''2024-05-01T10:00:02Z'', m_userId = None\<rparr>],
        participants =
          [\<lparr>p_id = ''p-1'', p_roomId = ''room-1'', p_username = ''ann'',
            p_joinedAt = ''2024-05-01T10:00:00Z'', p_lastSeen = ''2024-05-01T10:00:00Z'',
            p_isOnline = True, p_userId = None\<rparr>],
        isConnected = True, isLoading = False, error = None, lastMessageId = Some ''msg-1''\<rparr>,
      isMountedRef = True, reconnectTimeoutRef = None, timers = []\<rparr>) \<and>
   \<not> distinct (map m_id (messages (state (chat_messages_INSERT
        (Some \<lparr>mr_id = ''msg-1'', mr_room_id = ''room-1'', mr_username = ''ann'',
           mr_message = ''hello'', mr_message_type = ''text'',
           mr_created_at = ''2024-05-01T10:00:02Z'', mr_user_id = None\<rparr>)
        \<lparr>state = \<lparr>messages =
          [\<lparr>m_id = ''msg-1'', m_roomId = ''room-1'', m_username = ''ann'', m_message = ''hello'',
            m_messageType = ''text'', m_createdAt = ''2024-05-01T10:00:02Z'', m_userId = None\<rparr>],
        participants =
          [\<lparr>p_id = ''p-1'', p_roomId = ''room-1'', p_username = ''ann'',
            p_joinedAt = ''2024-05-01T10:00:00Z'', p_lastSeen = ''2024-05-01T10:00:00Z'',
            p_isOnline = True, p_userId = None\<rparr>],
        isConnected = True, isLoading = False, error = None, lastMessageId = Some ''msg-1''\<rparr>,
      isMountedRef = True, reconnectTimeoutRef = None, timers = []\<rparr>)))) \<and>
   \<not> sorted (map (\<lambda>m. (\<lambda>s. if s = ''2024-05-01T10:00:02Z'' then (1714557602000::int) else 1714557601000) (m_createdAt m)) (messages (state (chat_messages_INSERT
        (Some \<lparr>mr_id = ''msg-2'', mr_room_id = ''room-1'', mr_username = ''ann'',
           mr_message = ''hello'', mr_message_type = ''text'',
           mr_created_at = ''2024-05-01T10:00:01Z'', mr_user_id = None\<rparr>)
        \<lparr>state = \<lparr>messages =
          [\<lparr>m_id = ''msg-1'', m_roomId = ''room-1'', m_username = ''ann'', m_message = ''hello'',
            m_messageType = ''text'', m_createdAt = ''2024-05-01T10:00:02Z'', m_userId = None\<rparr>],
        participants =
          [\<lparr>p_id = ''p-1'', p_roomId = ''room-1'', p_username = ''ann'',
            p_joinedAt = ''2024-05-01T10:00:00Z'', p_lastSeen = ''2024-05-01T10:00:00Z'',
            p_isOnline = True, p_userId = None\<rparr>],
        isConnected = True, isLoading = False, error = None, lastMessageId = Some ''msg-1''\<rparr>,
      isMountedRef = True, reconnectTimeoutRef = None, timers = []\<rparr>)))) \<and>
   \<not> distinct (map p_id (participants (state (chat_participants_INSERT
        (Some \<lparr>pr_id = ''p-1'', pr_room_id = ''room-1'', pr_username = ''ann'',
           pr_joined_at = ''2024-05-01T10:00:00Z'', pr_last_seen = ''2024-05-01T10:00:05Z'',
           pr_is_online = False, pr_user_id = None\<rparr>)
        \<lparr>state = \<lparr>messages =
          [\<lparr>m_id = ''msg-1'', m_roomId = ''room-1'', m_username = ''ann'', m_message = ''hello'',
            m_messageType = ''text'', m_createdAt = ''2024-05-01T10:00:02Z'', m_userId = None\<rparr>],
        participants =
          [\<lparr>p_id = ''p-1'', p_roomId = ''room-1'', p_username = ''ann'',
            p_joinedAt = ''2024-05-01T10:00:00Z'', p_lastSeen = ''2024-05-01T10:00:00Z'',
            p_isOnline = True, p_userId = None\<rparr>],
        isConnected = True, isLoading = False, error = None, lastMessageId = Some ''msg-1''\<rparr>,
      isMountedRef = True, reconnectTimeoutRef = None, timers = []\<rparr>))))"
  by (simp add: chat_invariant_def chat_messages_INSERT_def chat_participants_INSERT_def
      message_of_row_def participant_of_row_def)

lemma distinct_ids_sort_key:
  "distinct (map f (sort_key k xs)) \<longleftrightarrow> distinct (map f xs)"
  by (rule mset_eq_imp_distinct_iff) simp

lemma fetchMessages_end_messages:
  "isMountedRef h \<Longrightarrow> roomId \<noteq> [] \<Longrightarrow>
   messages (state (fetchMessages_end getTime roomId now (Inr msgs) h)) =
     sort_key (\<lambda>m. getTime (m_createdAt m)) msgs \<and>
   participants (state (fetchMessages_end getTime roomId now (Inr msgs) h)) =
     participants (state h)"
  by (simp add: fetchMessages_end_def setLoading_def)

lemma chat_messages_INSERT_state:
  "isMountedRef h \<Longrightarrow>
   messages (state (chat_messages_INSERT (Some r) h)) = messages (state h) @ [message_of_row r] \<and>
   participants (state (chat_messages_INSERT (Some r) h)) = participants (state h)"
  by (simp add: chat_messages_INSERT_def)

lemma chat_participants_INSERT_state:
  "isMountedRef h \<Longrightarrow>
   participants (state (chat_participants_INSERT (Some p) h)) =
     participants (state h) @ [participant_of_row p] \<and>
   messages (state (chat_participants_INSERT (Some p) h)) = messages (state h)"
  by (simp add: chat_participants_INSERT_def)

text \<open>
  C1, amended. While the component is mounted: when the fetch of the messages completes,
  the message list is the list of the response in a stable ascending order of
  \<open>createdAt\<close>, with the same messages as often as the response has them, so its ids
  are unique exactly when those of the response are; the fetch of the participants
  stores the list of the response as it is. A realtime \<open>INSERT\<close> appends the new
  message (or participant) at the end and neither reorders nor removes anything: after
  it the ids are unique and the order is ascending exactly when they were before, the
  new id was not yet in the list and no message in the list is later than the new one.
\<close>

theorem chat_merge_order_and_ids:
  "isMountedRef h \<Longrightarrow> roomId \<noteq> [] \<Longrightarrow>
   messages (state (fetchMessages_end getTime roomId now (Inr msgs) h)) =
     sort_key (\<lambda>m. getTime (m_createdAt m)) msgs \<and>
   sorted (map (\<lambda>m. getTime (m_createdAt m))
     (messages (state (fetchMessages_end getTime roomId now (Inr msgs) h)))) \<and>
   mset (messages (state (fetchMessages_end getTime roomId now (Inr msgs) h))) = mset msgs \<and>
   (distinct (map m_id (messages (state (fetchMessages_end getTime roomId now (Inr msgs) h))))
      \<longleftrightarrow> distinct (map m_id msgs)) \<and>
   participants (state (fetchParticipants_end roomId now (Inr ps) h)) = ps \<and>
   messages (state (chat_messages_INSERT (Some r) h)) = messages (state h) @ [message_of_row r] \<and>
   (chat_invariant getTime (state (chat_messages_INSERT (Some r) h)) \<longleftrightarrow>
      chat_invariant getTime (state h) \<and>
      mr_id r \<notin> m_id ` set (messages (state h)) \<and>
      (\<forall>m\<in>set (messages (state h)). getTime (m_createdAt m) \<le> getTime (mr_created_at r))) \<and>
   participants (state (chat_participants_INSERT (Some p) h)) =
     participants (state h) @ [participant_of_row p] \<and>
   (chat_invariant getTime (state (chat_participants_INSERT (Some p) h)) \<longleftrightarrow>
      chat_invariant getTime (state h) \<and> pr_id p \<notin> p_id ` set (participants (state h)))"
proof -
  assume mounted: "isMountedRef h" and room: "roomId \<noteq> []"
  note f = fetchMessages_end_messages [OF mounted room, of getTime now msgs]
  note mi = chat_messages_INSERT_state [OF mounted, of r]
  note pi = chat_participants_INSERT_state [OF mounted, of p]
  have c1: "messages (state (fetchMessages_end getTime roomId now (Inr msgs) h)) =
     sort_key (\<lambda>m. getTime (m_createdAt m)) msgs"
    using f by simp
  have c2: "sorted (map (\<lambda>m. getTime (m_createdAt m))
     (messages (state (fetchMessages_end getTime roomId now (Inr msgs) h))))"
    by (simp only: c1 sorted_sort_key)
  have c3: "mset (messages (state (fetchMessages_end getTime roomId now (Inr msgs) h))) = mset msgs"
    by (simp only: c1 mset_sort)
  have c4: "distinct (map m_id (messages (state (fetchMessages_end getTime roomId now (Inr msgs) h))))
      \<longleftrightarrow> distinct (map m_id msgs)"
    by (simp only: c1 distinct_ids_sort_key)
  have c5: "participants (state (fetchParticipants_end roomId now (Inr ps) h)) = ps"
    using mounted room by (simp add: fetchParticipants_end_def)
  have c6: "messages (state (chat_messages_INSERT (Some r) h)) = messages (state h) @ [message_of_row r]"
    using mi by simp
  have c7: "chat_invariant getTime (state (chat_messages_INSERT (Some r) h)) \<longleftrightarrow>
      chat_invariant getTime (state h) \<and>
      mr_id r \<notin> m_id ` set (messages (state h)) \<and>
      (\<forall>m\<in>set (messages (state h)). getTime (m_createdAt m) \<le> getTime (mr_created_at r))"
    using mi by (auto simp: chat_invariant_def sorted_append message_of_row_def)
  have c8: "participants (state (chat_participants_INSERT (Some p) h)) =
     participants (state h) @ [participant_of_row p]"
    using pi by simp
  have c9: "chat_invariant getTime (state (chat_participants_INSERT (Some p) h)) \<longleftrightarrow>
      chat_invariant getTime (state h) \<and> pr_id p \<notin> p_id ` set (participants (state h))"
    using pi by (auto simp: chat_invariant_def participant_of_row_def)
  from c1 c2 c3 c4 c5 c6 c7 c8 c9 show ?thesis by blast
qed


theorem chat_merge_order_and_ids_witness:
  "messages (state (fetchMessages_end
      (\<lambda>s. if s = ''2024-05-01T10:00:02Z'' then (1714557602000::int) else 1714557601000)
      ''room-1'' 0
      (Inr [\<lparr>m_id = ''msg-1'', m_roomId = ''room-1'', m_username = ''ann'', m_message = ''hello'',
        m_messageType = ''text'', m_createdAt = ''2024-05-01T10:00:02Z'', m_userId = None\<rparr>,
            \<lparr>m_id = ''msg-0'', m_roomId = ''room-1'', m_username = ''bob'', m_message = ''hi'',
        m_messageType = ''text'', m_createdAt = ''2024-05-01T10:00:01Z'', m_userId = None\<rparr>])
      \<lparr>state = \<lparr>messages =
          [\<lparr>m_id = ''msg-1'', m_roomId = ''room-1'', m_username = ''ann'', m_message = ''hello'',
            m_messageType = ''text'', m_createdAt = ''2024-05-01T10:00:02Z'', m_userId = None\<rparr>],
        participants =
          [\<lparr>p_id = ''p-1'', p_roomId = ''room-1'', p_username = ''ann'',
            p_joinedAt = ''2024-05-01T10:00:00Z'', p_lastSeen = ''2024-05-01T10:00:00Z'',
            p_isOnline = True, p_userId = None\<rparr>],
        isConnected = True, isLoading = False, error = None, lastMessageId = Some ''msg-1''\<rparr>,
      isMountedRef = True, reconnectTimeoutRef = None, timers = []\<rparr>)) =
     [\<lparr>m_id = ''msg-0'', m_roomId = ''room-1'', m_username = ''bob'', m_message = ''hi'',
        m_messageType = ''text'', m_createdAt = ''2024-05-01T10:00:01Z'', m_userId = None\<rparr>,
      \<lparr>m_id = ''msg-1'', m_roomId = ''room-1'', m_username = ''ann'', m_message = ''hello'',
        m_messageType = ''text'', m_createdAt = ''2024-05-01T10:00:02Z'', m_userId = None\<rparr>] \<and>
   chat_invariant
     (\<lambda>s. if s = ''2024-05-01T10:00:02Z'' then (1714557602000::int) else 1714557601000)
     (state (chat_messages_INSERT
        (Some \<lparr>mr_id = ''msg-2'', mr_room_id = ''room-1'', mr_username = ''ann'',
           mr_message = ''hello'', mr_message_type = ''text'',
           mr_created_at = ''2024-05-01T10:00:02Z'', mr_user_id = None\<rparr>)
        \<lparr>state = \<lparr>messages =
          [\<lparr>m_id = ''msg-1'', m_roomId = ''room-1'', m_username = ''ann'', m_message = ''hello'',
            m_messageType = ''text'', m_createdAt = ''2024-05-01T10:00:02Z'', m_userId = None\<rparr>],
        participants =
          [\<lparr>p_id = ''p-1'', p_roomId = ''room-1'', p_username = ''ann'',
            p_joinedAt = ''2024-05-01T10:00:00Z'', p_lastSeen = ''2024-05-01T10:00:00Z'',
            p_isOnline = True, p_userId = None\<rparr>],
        isConnected = True, isLoading = False, error = None, lastMessageId = Some ''msg-1''\<rparr>,
      isMountedRef = True, reconnectTimeoutRef = None, timers = []\<rparr>)) \<and>
   chat_invariant
     (\<lambda>s. if s = ''2024-05-01T10:00:02Z'' then (1714557602000::int) else 1714557601000)
     (state (chat_participants_INSERT
        (Some \<lparr>pr_id = ''p-2'', pr_room_id = ''room-1'', pr_username = ''ann'',
           pr_joined_at = ''2024-05-01T10:00:00Z'', pr_last_seen = ''2024-05-01T10:00:05Z'',
           pr_is_online = False, pr_user_id = None\<rparr>)
        \<lparr>state = \<lparr>messages =
          [\<lparr>m_id = ''msg-1'', m_roomId = ''room-1'', m_username = ''ann'', m_message = ''hello'',
            m_messageType = ''text'', m_createdAt = ''2024-05-01T10:00:02Z'', m_userId = None\<rparr>],
        participants =
          [\<lparr>p_id = ''p-1'', p_roomId = ''room-1'', p_username = ''ann'',
            p_joinedAt = ''2024-05-01T10:00:00Z'', p_lastSeen = ''2024-05-01T10:00:00Z'',
            p_isOnline = True, p_userId = None\<rparr>],
        isConnected = True, isLoading = False, error = None, lastMessageId = Some ''msg-1''\<rparr>,
      isMountedRef = True, reconnectTimeoutRef = None, timers = []\<rparr>))"
  (is "messages (state (fetchMessages_end ?getTime ?room ?now (Inr ?msgs) ?h)) = _ \<and>
       chat_invariant _ (state (chat_messages_INSERT (Some ?r) _)) \<and>
       chat_invariant _ (state (chat_participants_INSERT (Some ?p) _))")
proof -
  have mounted: "isMountedRef ?h" and room: "?room \<noteq> []"
    by simp_all
  have before: "chat_invariant ?getTime (state ?h)"
    by (simp add: chat_invariant_def)
  from chat_merge_order_and_ids [OF mounted room, of ?getTime ?now ?msgs "[]" ?r ?p] before
  show ?thesis
    by (simp add: message_of_row_def participant_of_row_def)
qed

subsection \<open>makeRequest and the reconnection timer\<close>

text \<open>
  The shape of a run that starts at retry count \<open>retryCount\<close>: it makes the attempts
  \<open>retryCount\<close> to \<open>k\<close>, all but the last one failing and each failure followed by
  its delay, and it returns what attempt \<open>k\<close> gives; it stops before the last
  permitted attempt only on success.
\<close>

lemma makeRequest_shape:
  "retryCount \<le> RETRY_ATTEMPTS \<Longrightarrow>
   \<exists>k. retryCount \<le> k \<and> k \<le> RETRY_ATTEMPTS \<and>
       snd (makeRequest net url retryCount) =
         concat (map (\<lambda>j. [Fetch url, Sleep (RETRY_DELAY * Suc j)]) [retryCount..<k]) @ [Fetch url] \<and>
       fst (makeRequest net url retryCount) = attempt (net k) \<and>
       (\<forall>j. retryCount \<le> j \<and> j < k \<longrightarrow> isl (attempt (net j))) \<and>
       (k < RETRY_ATTEMPTS \<longrightarrow> \<not> isl (attempt (net k)))"
proof (induction net url retryCount rule: makeRequest.induct)
  case (1 net url retryCount)
  show ?case
  proof (cases "attempt (net retryCount)")
    case (Inr d)
    then have "makeRequest net url retryCount = (Inr d, [Fetch url])"
      by (simp add: makeRequest.simps [of net url retryCount])
    with Inr show ?thesis
      by (intro exI [of _ retryCount]) (use "1.prems" in auto)
  next
    case (Inl e)
    show ?thesis
    proof (cases "retryCount < RETRY_ATTEMPTS")
      case False
      with Inl have "makeRequest net url retryCount = (Inl e, [Fetch url])"
        by (simp add: makeRequest.simps [of net url retryCount])
      with Inl False show ?thesis
        by (intro exI [of _ retryCount]) (use "1.prems" in auto)
    next
      case True
      then have "retryCount + 1 \<le> RETRY_ATTEMPTS" by simp
      from "1.IH" [OF Inl True this] obtain k where
        k: "retryCount + 1 \<le> k" "k \<le> RETRY_ATTEMPTS"
          "snd (makeRequest net url (retryCount + 1)) =
             concat (map (\<lambda>j. [Fetch url, Sleep (RETRY_DELAY * Suc j)]) [retryCount + 1..<k]) @
             [Fetch url]"
          "fst (makeRequest net url (retryCount + 1)) = attempt (net k)"
          "\<forall>j. retryCount + 1 \<le> j \<and> j < k \<longrightarrow> isl (attempt (net j))"
          "k < RETRY_ATTEMPTS \<longrightarrow> \<not> isl (attempt (net k))"
        by blast
      have unfold: "makeRequest net url retryCount =
          (fst (makeRequest net url (retryCount + 1)),
           Fetch url # Sleep (RETRY_DELAY * (retryCount + 1)) #
             snd (makeRequest net url (retryCount + 1)))"
        using Inl True by (simp add: makeRequest.simps [of net url retryCount])
      have upt: "[retryCount..<k] = retryCount # [retryCount + 1..<k]"
        using k(1) by (simp add: upt_conv_Cons)
      have all: "\<forall>j. retryCount \<le> j \<and> j < k \<longrightarrow> isl (attempt (net j))"
      proof (intro allI impI)
        fix j assume j: "retryCount \<le> j \<and> j < k"
        show "isl (attempt (net j))"
        proof (cases "j = retryCount")
          case True then show ?thesis using Inl by simp
        next
          case False then show ?thesis using j k(5) by simp
        qed
      qed
      show ?thesis
        apply (intro exI [of _ k])
        using k(1,2,3,4,6) all by (simp add: unfold upt)
    qed
  qed
qed

lemma fetches_shape:
  "fetches (concat (map (\<lambda>j. [Fetch url, Sleep (f j)]) js) @ [Fetch url]) = Suc (length js)"
  by (induction js) (simp_all add: fetches_def)

lemma sleeps_shape:
  "sleeps (concat (map (\<lambda>j. [Fetch url, Sleep (f j)]) js) @ [Fetch url]) = map f js"
  by (induction js) (simp_all add: sleeps_def)

text \<open>
  C8. A request of the chat API client (\<open>makeRequest\<close> started with retry count 0, a
  total function) calls \<open>fetch\<close> at most \<open>1 + RETRY_ATTEMPTS = 4\<close> times; the delay
  before the n-th retry is \<open>RETRY_DELAY * n\<close>, so the delays are an initial part of
  1000, 2000, 3000; and when all four attempts fail the result is the error of the
  last attempt, after all three delays. The callback of the subscription, on the
  status \<open>CHANNEL_ERROR\<close> or \<open>TIMED_OUT\<close>, adds one timer that calls \<open>reconnect\<close>
  after \<open>RECONNECT_DELAY = 5000\<close> milliseconds and keeps its handle.
\<close>

theorem makeRequest_bounded_retries:
  "fetches (snd (makeRequest net url 0)) \<le> 1 + RETRY_ATTEMPTS \<and> 1 + RETRY_ATTEMPTS = 4 \<and>
   sleeps (snd (makeRequest net url 0)) =
     map (\<lambda>n. RETRY_DELAY * n) [1..<fetches (snd (makeRequest net url 0))] \<and>
   sleeps (snd (makeRequest net url 0)) =
     take (fetches (snd (makeRequest net url 0)) - 1) [1000, 2000, 3000] \<and>
   ((\<forall>j\<le>RETRY_ATTEMPTS. isl (attempt (net j))) \<longrightarrow>
      fst (makeRequest net url 0) = attempt (net RETRY_ATTEMPTS) \<and>
      snd (makeRequest net url 0) =
        [Fetch url, Sleep 1000, Fetch url, Sleep 2000, Fetch url, Sleep 3000, Fetch url]) \<and>
   (status = ''CHANNEL_ERROR'' \<or> status = ''TIMED_OUT'' \<longrightarrow>
      timers (subscribe_status status h) = timers h @ [(Reconnect, RECONNECT_DELAY)] \<and>
      reconnectTimeoutRef (subscribe_status status h) = Some (length (timers h)) \<and>
      RECONNECT_DELAY = 5000)"
proof -
  obtain k where k: "k \<le> RETRY_ATTEMPTS"
      "snd (makeRequest net url 0) =
         concat (map (\<lambda>j. [Fetch url, Sleep (RETRY_DELAY * Suc j)]) [0..<k]) @ [Fetch url]"
      "fst (makeRequest net url 0) = attempt (net k)"
      "k < RETRY_ATTEMPTS \<longrightarrow> \<not> isl (attempt (net k))"
    using makeRequest_shape [of 0 net url] by auto
  have f: "fetches (snd (makeRequest net url 0)) = Suc k"
    by (simp add: k(2) fetches_shape)
  have s: "sleeps (snd (makeRequest net url 0)) = map (\<lambda>j. RETRY_DELAY * Suc j) [0..<k]"
    by (simp add: k(2) sleeps_shape)
  have m: "map (\<lambda>j. RETRY_DELAY * Suc j) [0..<k] = map (\<lambda>n. RETRY_DELAY * n) [1..<Suc k]"
    by (simp add: map_Suc_upt [symmetric] del: upt_Suc)
  have k3: "k = 0 \<or> k = 1 \<or> k = 2 \<or> k = 3"
    using k(1) by (auto simp: RETRY_ATTEMPTS_def)
  have t: "map (\<lambda>j. RETRY_DELAY * Suc j) [0..<k] = take k [1000, 2000, 3000]"
    using k3 by (auto simp: RETRY_DELAY_def upt_rec)
  have last: "(\<forall>j\<le>RETRY_ATTEMPTS. isl (attempt (net j))) \<longrightarrow> k = RETRY_ATTEMPTS"
  proof (intro impI)
    assume a: "\<forall>j\<le>RETRY_ATTEMPTS. isl (attempt (net j))"
    then have "isl (attempt (net k))" using k(1) by simp
    with k(4) have "\<not> k < RETRY_ATTEMPTS" by blast
    with k(1) show "k = RETRY_ATTEMPTS" by simp
  qed
  have full: "k = RETRY_ATTEMPTS \<longrightarrow> snd (makeRequest net url 0) =
      [Fetch url, Sleep 1000, Fetch url, Sleep 2000, Fetch url, Sleep 3000, Fetch url]"
    by (auto simp: k(2) RETRY_ATTEMPTS_def RETRY_DELAY_def upt_rec)
  have c1: "fetches (snd (makeRequest net url 0)) \<le> 1 + RETRY_ATTEMPTS"
    using k(1) by (simp add: f)
  have c2: "1 + RETRY_ATTEMPTS = 4"
    by (simp add: RETRY_ATTEMPTS_def)
  have c3: "sleeps (snd (makeRequest net url 0)) =
      map (\<lambda>n. RETRY_DELAY * n) [1..<fetches (snd (makeRequest net url 0))]"
    by (simp only: f s m)
  have c4: "sleeps (snd (makeRequest net url 0)) =
      take (fetches (snd (makeRequest net url 0)) - 1) [1000, 2000, 3000]"
    by (simp only: f s t diff_Suc_1)
  have c5: "(\<forall>j\<le>RETRY_ATTEMPTS. isl (attempt (net j))) \<longrightarrow>
      fst (makeRequest net url 0) = attempt (net RETRY_ATTEMPTS) \<and>
      snd (makeRequest net url 0) =
        [Fetch url, Sleep 1000, Fetch url, Sleep 2000, Fetch url, Sleep 3000, Fetch url]"
    using last full k(3) by blast
  have c6: "status = ''CHANNEL_ERROR'' \<or> status = ''TIMED_OUT'' \<longrightarrow>
      timers (subscribe_status status h) = timers h @ [(Reconnect, RECONNECT_DELAY)] \<and>
      reconnectTimeoutRef (subscribe_status status h) = Some (length (timers h)) \<and>
      RECONNECT_DELAY = 5000"
    by (auto simp: subscribe_status_def setConnected_def RECONNECT_DELAY_def Let_def)
  from c1 c2 c3 c4 c5 c6 show ?thesis by blast
qed

theorem makeRequest_bounded_retries_witness:
  "fst (makeRequest ((\<lambda>n. if n < 3 then Rejected ''Failed to fetch''
           else Response 503 ''Service Unavailable'' (Unparsable ''Unexpected token'')) :: nat \<Rightarrow> unit fetch_outcome) ''/api/chat/participants?roomId=room-1'' 0) =
     Inl ''HTTP 503: Service Unavailable'' \<and>
   snd (makeRequest ((\<lambda>n. if n < 3 then Rejected ''Failed to fetch''
           else Response 503 ''Service Unavailable'' (Unparsable ''Unexpected token'')) :: nat \<Rightarrow> unit fetch_outcome) ''/api/chat/participants?roomId=room-1'' 0) =
     [Fetch ''/api/chat/participants?roomId=room-1'', Sleep 1000,
      Fetch ''/api/chat/participants?roomId=room-1'', Sleep 2000,
      Fetch ''/api/chat/participants?roomId=room-1'', Sleep 3000,
      Fetch ''/api/chat/participants?roomId=room-1''] \<and>
   timers (subscribe_status ''TIMED_OUT''
     \<lparr>state = \<lparr>messages = [], participants = [], isConnected = True, isLoading = False,
        error = None, lastMessageId = None\<rparr>,
      isMountedRef = True, reconnectTimeoutRef = None, timers = []\<rparr>) = [(Reconnect, 5000)]"
proof -
  have fails: "\<forall>j\<le>RETRY_ATTEMPTS. isl (attempt (((\<lambda>n. if n < 3 then Rejected ''Failed to fetch''
           else Response 503 ''Service Unavailable'' (Unparsable ''Unexpected token'')) :: nat \<Rightarrow> unit fetch_outcome) j))"
    by simp
  note run = makeRequest_bounded_retries [of
        "(\<lambda>n. if n < 3 then Rejected ''Failed to fetch''
           else Response 503 ''Service Unavailable'' (Unparsable ''Unexpected token''))"
        "''/api/chat/participants?roomId=room-1''" "''TIMED_OUT''"
        "\<lparr>state = \<lparr>messages = [], participants = [], isConnected = True, isLoading = False,
        error = None, lastMessageId = None\<rparr>,
      isMountedRef = True, reconnectTimeoutRef = None, timers = []\<rparr>"]
  from run fails have
    "fst (makeRequest ((\<lambda>n. if n < 3 then Rejected ''Failed to fetch''
           else Response 503 ''Service Unavailable'' (Unparsable ''Unexpected token'')) :: nat \<Rightarrow> unit fetch_outcome) ''/api/chat/participants?roomId=room-1'' 0) =
       attempt (((\<lambda>n. if n < 3 then Rejected ''Failed to fetch''
           else Response 503 ''Service Unavailable'' (Unparsable ''Unexpected token'')) :: nat \<Rightarrow> unit fetch_outcome) RETRY_ATTEMPTS)"
    and "snd (makeRequest ((\<lambda>n. if n < 3 then Rejected ''Failed to fetch''
           else Response 503 ''Service Unavailable'' (Unparsable ''Unexpected token'')) :: nat \<Rightarrow> unit fetch_outcome) ''/api/chat/participants?roomId=room-1'' 0) =
       [Fetch ''/api/chat/participants?roomId=room-1'', Sleep 1000,
        Fetch ''/api/chat/participants?roomId=room-1'', Sleep 2000,
        Fetch ''/api/chat/participants?roomId=room-1'', Sleep 3000,
        Fetch ''/api/chat/participants?roomId=room-1'']"
    by blast+
  moreover from run have "timers (subscribe_status ''TIMED_OUT''
     \<lparr>state = \<lparr>messages = [], participants = [], isConnected = True, isLoading = False,
        error = None, lastMessageId = None\<rparr>,
      isMountedRef = True, reconnectTimeoutRef = None, timers = []\<rparr>) =
     timers \<lparr>state = \<lparr>messages = [], participants = [], isConnected = True, isLoading = False,
        error = None, lastMessageId = None\<rparr>,
      isMountedRef = True, reconnectTimeoutRef = None, timers = []\<rparr> @ [(Reconnect, RECONNECT_DELAY)]"
    by blast
  ultimately show ?thesis
    by (simp add: RETRY_ATTEMPTS_def RECONNECT_DELAY_def show_nat.simps digit_char_def)
qed

section \<open>Properties of the upload route\<close>

lemmas POST_defs = POST_def validate_file_def scan_file_def store_binary_def save_metadata_def
  cache_tokens_def Let_def

lemmas parseInt_eval = parseInt_def trim_start.simps white_space_def is_digit_def digit_value_def
  digits_value_def or_else_def to_double_def round_to_double_def

text \<open>
  C2. When the handler reaches the virus scan and the scan reports the buffer as not
  clean, the response is the error 400 \<open>File contains malicious content and cannot be
  uploaded\<close>; the calls end with the scan and the audit row \<open>virus_detected\<close>; nothing
  is uploaded to the bucket, no row is inserted into \<open>files\<close> and nothing is cached:
  of the stores only \<open>audit_logs\<close> changes, by that one row.
\<close>

theorem virus_detected_rejects_upload:
  assumes "\<not> misconfigured env" and "sv_isAllowed sv = Returns True"
    and "sv_formData sv = Returns form" and "fd_file form = Some file"
    and "validateFileType lib (f_name file) (f_type file) (getAllowedTypes lib)"
    and "validateFileSize (f_size file) (parseInt (or_else (MAX_FILE_SIZE env) ''104857600''))"
    and "sv_scan sv = Returns scanResult" and "\<not> isClean scanResult"
  shows "fst (POST lib env sv rq) =
           ErrorResponse 400 ''File contains malicious content and cannot be uploaded'' None \<and>
         snd (POST lib env sv rq) =
           [IsAllowed, ReadFormData,
            ValidateFileType (f_name file) (f_type file),
            ValidateFileSize (f_size file) (parseInt (or_else (MAX_FILE_SIZE env) ''104857600'')),
            ScanBuffer (f_bytes file),
            InsertAuditLog (virus_audit_row sv rq file scanResult)] \<and>
         bucket (stores_after w (snd (POST lib env sv rq))) = bucket w \<and>
         files (stores_after w (snd (POST lib env sv rq))) = files w \<and>
         cache (stores_after w (snd (POST lib env sv rq))) = cache w \<and>
         audit_logs (stores_after w (snd (POST lib env sv rq))) =
           audit_logs w @ [virus_audit_row sv rq file scanResult]"
proof -
  have run: "POST lib env sv rq =
      (ErrorResponse 400 ''File contains malicious content and cannot be uploaded'' None,
       [IsAllowed, ReadFormData,
        ValidateFileType (f_name file) (f_type file),
        ValidateFileSize (f_size file) (parseInt (or_else (MAX_FILE_SIZE env) ''104857600'')),
        ScanBuffer (f_bytes file),
        InsertAuditLog (virus_audit_row sv rq file scanResult)])"
    using assms by (simp add: POST_defs)
  show ?thesis
    by (simp add: run stores_after_def)
qed

theorem virus_detected_rejects_upload_witness:
  "POST
     (\<lparr>getAllowedTypes = [''text/plain'', ''application/pdf''],
       validateFileType = (\<lambda>name mime allowed. mime \<in> set allowed),
       BUCKETS_FILES = ''files'',
       FILE_UPLOAD = (\<lambda>token. ''file_upload:'' @ token)\<rparr>)
     (\<lparr>NEXT_PUBLIC_SUPABASE_URL = Some ''https://your-project.supabase.co'',
       NEXT_PUBLIC_APPWRITE_ENDPOINT = Some ''https://your-appwrite-endpoint'',
       MAX_FILE_SIZE = Some ''734003200'',
       NEXT_PUBLIC_BASE_URL = Some ''https://your-domain.com''\<rparr>)
     (\<lparr>sv_isAllowed = Returns True,
       sv_formData = Returns (\<lparr>fd_file = Some (\<lparr>f_name = ''notes.txt'',
           f_type = ''text/plain'',
           f_size = 11,
           f_bytes = ''hello world''\<rparr>),
         fd_password = None,
         fd_expiresIn = None,
         fd_maxDownloads = None,
         fd_captchaToken = None\<rparr>),
       sv_fileId = ''file-01'',
       sv_downloadToken = ''dl-4f9a1c'',
       sv_editToken = ''ed-77b2e0'',
       sv_scan = Returns (\<lparr>isClean = False,
           signature = Some ''Eicar-Test-Signature'',
           scan_message = Some ''infected''\<rparr>),
       sv_storage = Returns (\<lparr>res_ok = True,
           res_text = Returns ''{}'',
           res_json = Returns ()\<rparr>),
       sv_now = 1714557600000,
       sv_uploadedAt = 1714557600002,
       sv_fileInsertError = None,
       sv_setWithExpiry = Returns ()\<rparr>)
     (\<lparr>rq_origin = ''http://localhost:3000'',
       rq_clientIP = ''203.0.113.7'',
       rq_userAgent = Some ''curl/8.5.0''\<rparr>) =
   (ErrorResponse 400 ''File contains malicious content and cannot be uploaded'' None,
    [IsAllowed, ReadFormData, ValidateFileType ''notes.txt'' ''text/plain'',
       ValidateFileSize 11 (Num 734003200), ScanBuffer ''hello world'',
       InsertAuditLog
        (\<lparr>a_action = ''virus_detected'',
         a_resource_type = ''file'',
         a_resource_id = ''file-01'',
         a_ip_address = ''203.0.113.7'',
         a_user_agent = Some ''curl/8.5.0'',
         a_metadata = VirusMetadata ''notes.txt'' (Some ''Eicar-Test-Signature'') (Some ''infected'')\<rparr>)])"
  (is "POST ?lib ?env ?sv ?rq = _")
proof -
  let ?file = "\<lparr>f_name = ''notes.txt'',
           f_type = ''text/plain'',
           f_size = 11,
           f_bytes = ''hello world''\<rparr>"
  let ?form = "\<lparr>fd_file = Some (?file),
         fd_password = None,
         fd_expiresIn = None,
         fd_maxDownloads = None,
         fd_captchaToken = None\<rparr>"
  let ?scan = "\<lparr>isClean = False,
           signature = Some ''Eicar-Test-Signature'',
           scan_message = Some ''infected''\<rparr>"
  have configured: "\<not> misconfigured ?env"
    by (simp add: misconfigured_def falsy_def)
  have maxSize: "parseInt (or_else (Some ''734003200'') ''104857600'') = Num 734003200"
    by (simp add: parseInt_eval)
  have size_ok: "validateFileSize (f_size ?file) (parseInt (or_else (MAX_FILE_SIZE ?env) ''104857600''))"
    by (simp add: maxSize validateFileSize_def)
  have "fst (POST ?lib ?env ?sv ?rq) =
      ErrorResponse 400 ''File contains malicious content and cannot be uploaded'' None \<and>
    snd (POST ?lib ?env ?sv ?rq) =
      [IsAllowed, ReadFormData, ValidateFileType (f_name ?file) (f_type ?file),
       ValidateFileSize (f_size ?file) (parseInt (or_else (MAX_FILE_SIZE ?env) ''104857600'')),
       ScanBuffer (f_bytes ?file),
       InsertAuditLog (virus_audit_row ?sv ?rq ?file ?scan)]"
    using virus_detected_rejects_upload [of ?env ?sv ?form ?file ?lib ?scan ?rq,
        OF configured _ _ _ _ size_ok]
    by simp
  then show ?thesis
    by (simp add: prod_eq_iff maxSize virus_audit_row_def)
qed

text \<open>
  Numbers below \<open>2 ^ 53\<close> in absolute value are doubles, and a product or a sum that
  comes out below \<open>2 ^ 53\<close> has not been rounded: \<open>round_to_double\<close> leaves a number
  below \<open>2 ^ 53\<close> as it is and takes no number from \<open>2 ^ 53\<close> on below \<open>2 ^ 53\<close>.
\<close>

lemma bit_length_bounds:
  "0 < n \<Longrightarrow> 2 ^ (bit_length n - 1) \<le> n \<and> n < 2 ^ bit_length n"
proof (induction n rule: bit_length.induct)
  case (1 n)
  show ?case
  proof (cases "n div 2 = 0")
    case True
    with 1(2) have "n = 1" by (simp add: div_eq_0_iff)
    then show ?thesis
      by (simp add: bit_length.simps [of "Suc 0"] bit_length.simps [of 0])
  next
    case False
    then have pos: "0 < n div 2" by simp
    from 1(1) 1(2) pos have ih: "2 ^ (bit_length (n div 2) - 1) \<le> n div 2 \<and>
        n div 2 < 2 ^ bit_length (n div 2)"
      by simp
    have eq: "bit_length n = Suc (bit_length (n div 2))"
      using 1(2) by (simp add: bit_length.simps [of n])
    have bl: "0 < bit_length (n div 2)"
      using pos by (simp add: bit_length.simps [of "n div 2"])
    then have "(2::nat) ^ bit_length (n div 2) = 2 * 2 ^ (bit_length (n div 2) - 1)"
      by (cases "bit_length (n div 2)") simp_all
    with ih have "2 ^ bit_length (n div 2) \<le> n" by linarith
    moreover from ih have "n < 2 * 2 ^ bit_length (n div 2)" by linarith
    ultimately show ?thesis by (simp add: eq)
  qed
qed

lemma round_to_double_large:
  assumes "9007199254740992 \<le> n"
  shows "9007199254740992 \<le> round_to_double n"
proof -
  define s where "s = bit_length n - 53"
  define q where "q = n div 2 ^ s"
  from assms have pos: "0 < n" by simp
  note b = bit_length_bounds [OF pos]
  have "(2::nat) ^ 53 \<le> n" using assms by simp
  with b have "(2::nat) ^ 53 < 2 ^ bit_length n" by linarith
  then have "53 < bit_length n" by (rule power_less_imp_less_exp [rotated]) simp
  then have bl: "bit_length n - 1 = 52 + s" and s1: "1 \<le> s" by (simp_all add: s_def)
  have "(2::nat) ^ (bit_length n - 1) = 2 ^ 52 * 2 ^ s" by (simp only: bl power_add)
  with b have "(2::nat) ^ 52 * 2 ^ s \<le> n" by presburger
  then have "(2::nat) ^ 52 \<le> q"
    unfolding q_def by (simp add: less_eq_div_iff_mult_less_eq)
  then have "(2::nat) ^ 52 * 2 ^ s \<le> q * 2 ^ s" by simp
  moreover have "(2::nat) ^ 53 \<le> 2 ^ 52 * 2 ^ s"
    using s1 power_increasing [of 1 s "2::nat"] by simp
  ultimately have low: "(2::nat) ^ 53 \<le> q * 2 ^ s" by linarith
  have "q * 2 ^ s \<le> round_to_double n"
    using assms by (simp add: round_to_double_def Let_def s_def q_def)
  with low show ?thesis by simp
qed

lemma to_double_Num_small:
  assumes "to_double n = Num m" and "\<bar>m\<bar> < 9007199254740992"
  shows "m = n"
proof (cases "nat \<bar>n\<bar> < 9007199254740992")
  case True
  then have "round_to_double (nat \<bar>n\<bar>) = nat \<bar>n\<bar>" by (simp add: round_to_double_def)
  with assms(1) show ?thesis by (auto simp: to_double_def split: if_splits)
next
  case False
  then have "9007199254740992 \<le> round_to_double (nat \<bar>n\<bar>)"
    by (intro round_to_double_large) simp
  with assms show ?thesis by (auto simp: to_double_def split: if_splits)
qed

lemma js_times_Num:
  assumes "js_times x c = Num b" and "\<bar>b\<bar> < 9007199254740992" and "1 \<le> c"
  shows "\<exists>a. x = Num a \<and> b = a * c \<and> \<bar>a\<bar> < 9007199254740992"
proof -
  from assms(1) obtain a where x: "x = Num a" and d: "to_double (a * c) = Num b"
    by (cases x) (simp_all add: js_times_def)
  from to_double_Num_small [OF d assms(2)] have b: "b = a * c" .
  have "\<bar>a\<bar> \<le> \<bar>a\<bar> * c" using assms(3) by (simp add: mult_le_cancel_left1)
  also have "\<dots> = \<bar>b\<bar>" using assms(3) by (simp add: b abs_mult)
  finally show ?thesis using x b assms(2) by simp
qed

lemma expiry_time_exact:
  assumes "js_plus now (js_times (js_times (js_times x 60) 60) 1000) = Num t"
    and "\<bar>t\<bar> \<le> 8640000000000000" and "\<bar>now\<bar> \<le> 100000000000000"
  shows "\<exists>hours. x = Num hours \<and> t = now + hours * 60 * 60 * 1000"
proof -
  from assms(1) obtain a3 where x3: "js_times (js_times (js_times x 60) 60) 1000 = Num a3"
    and d: "to_double (now + a3) = Num t"
    by (cases "js_times (js_times (js_times x 60) 60) 1000") (simp_all add: js_plus_def)
  from assms(2) have "\<bar>t\<bar> < 9007199254740992" by simp
  from to_double_Num_small [OF d this] have t: "t = now + a3" .
  with assms(2,3) have "\<bar>a3\<bar> < 9007199254740992" by simp
  from js_times_Num [OF x3 this] obtain a2 where x2: "js_times (js_times x 60) 60 = Num a2"
    and a3: "a3 = a2 * 1000" and "\<bar>a2\<bar> < 9007199254740992" by auto
  from js_times_Num [OF x2 this(3)] obtain a1 where x1: "js_times x 60 = Num a1"
    and a2: "a2 = a1 * 60" and "\<bar>a1\<bar> < 9007199254740992" by auto
  from js_times_Num [OF x1 this(3)] obtain h where "x = Num h" and "a1 = h * 60" by auto
  with t a3 a2 show ?thesis by simp
qed

text \<open>
  A successful run makes every call, in one order.
\<close>

lemma POST_success:
  "fst (POST lib env sv rq) = SuccessResponse body \<Longrightarrow>
   \<exists>form file expiryDate.
     sv_formData sv = Returns form \<and> fd_file form = Some file \<and>
     expiry (fd_expiresIn form) (sv_now sv) = Returns expiryDate \<and>
     POST lib env sv rq =
       (success_response env sv rq file,
        [IsAllowed, ReadFormData,
         ValidateFileType (f_name file) (f_type file),
         ValidateFileSize (f_size file) (parseInt (or_else (MAX_FILE_SIZE env) ''104857600'')),
         ScanBuffer (f_bytes file),
         CreateFile (BUCKETS_FILES lib) (sv_fileId sv) file True,
         InsertFile (new_file_row sv rq form file expiryDate) True,
         InsertAuditLog (upload_audit_row sv rq file),
         SetWithExpiry (FILE_UPLOAD lib (sv_downloadToken sv))
           \<lparr>cv_fileId = sv_fileId sv, cv_editToken = sv_editToken sv\<rparr> (24 * 60 * 60) True])"
  by (auto simp: POST_defs upload_failed_def split: if_splits outcome.splits option.splits)

lemma steps_prefix: "prefix (steps (snd (POST lib env sv rq))) upload_steps"
  by (auto simp: POST_defs steps_def upload_steps_def
      split: if_splits outcome.splits option.splits)

lemma steps_success:
  assumes "fst (POST lib env sv rq) = SuccessResponse body"
  shows "steps (snd (POST lib env sv rq)) = upload_steps"
proof -
  from POST_success [OF assms] obtain form upload expiryDate where
    "POST lib env sv rq =
       (success_response env sv rq upload,
        [IsAllowed, ReadFormData,
         ValidateFileType (f_name upload) (f_type upload),
         ValidateFileSize (f_size upload) (parseInt (or_else (MAX_FILE_SIZE env) ''104857600'')),
         ScanBuffer (f_bytes upload),
         CreateFile (BUCKETS_FILES lib) (sv_fileId sv) upload True,
         InsertFile (new_file_row sv rq form upload expiryDate) True,
         InsertAuditLog (upload_audit_row sv rq upload),
         SetWithExpiry (FILE_UPLOAD lib (sv_downloadToken sv))
           \<lparr>cv_fileId = sv_fileId sv, cv_editToken = sv_editToken sv\<rparr> (24 * 60 * 60) True])"
    by blast
  then show ?thesis
    by (simp add: steps_def upload_steps_def)
qed

text \<open>The handler stage by stage, for a request whose file has been read from the form.\<close>

lemma POST_validate:
  assumes "\<not> misconfigured env" and "sv_isAllowed sv = Returns True"
    and "sv_formData sv = Returns form" and "fd_file form = Some file"
  shows "POST lib env sv rq = validate_file lib env sv rq form file [IsAllowed, ReadFormData]"
  using assms by (simp add: POST_def)

text \<open>
  C4. The steps of every run of the handler are an initial part of: type validation,
  size validation, malware scan, storing the binary, writing the metadata row, caching
  the tokens; and a run that answers success has made them all. Once the file is read
  from the form, every step that fails ends the run with its error response and no
  later step: a type that is not allowed gives 400 \<open>File type not allowed\<close>; an allowed
  type with a size above the configured maximum gives 400 \<open>File size exceeds limit\<close>; a
  scan that throws gives 500 and a scan that is not clean gives 400 \<open>File contains
  malicious content and cannot be uploaded\<close>, both with the scan the last step; a
  storage call that throws or is answered with a status that is not ok gives 500 with
  the storage step the last one, and so does a stored binary whose answer cannot be
  read or whose expiry cannot be written as a date; an insert into \<open>files\<close> that
  returns an error gives 500 with the metadata step the last one; a cache write that
  throws gives 500 after all six steps, the write not having taken place. When no step
  fails, the answer is the success body and the calls are the nine calls in their
  order.
\<close>

theorem upload_steps_in_order:
  "prefix (steps (snd (POST lib env sv rq))) upload_steps \<and>
   (fst (POST lib env sv rq) = SuccessResponse body \<longrightarrow>
      steps (snd (POST lib env sv rq)) = upload_steps) \<and>
   (\<not> misconfigured env \<and> sv_isAllowed sv = Returns True \<and>
    sv_formData sv = Returns form \<and> fd_file form = Some file \<longrightarrow>
      (\<not> validateFileType lib (f_name file) (f_type file) (getAllowedTypes lib) \<longrightarrow>
         fst (POST lib env sv rq) = ErrorResponse 400 ''File type not allowed'' None \<and>
         steps (snd (POST lib env sv rq)) = [TypeValidation]) \<and>
      (validateFileType lib (f_name file) (f_type file) (getAllowedTypes lib) \<and>
       (parseInt (or_else (MAX_FILE_SIZE env) ''104857600'')) = Num maxSize \<and> maxSize < int (f_size file) \<longrightarrow>
         fst (POST lib env sv rq) = ErrorResponse 400 ''File size exceeds limit'' None \<and>
         steps (snd (POST lib env sv rq)) = [TypeValidation, SizeValidation]) \<and>
      (validateFileType lib (f_name file) (f_type file) (getAllowedTypes lib) \<and>
       \<not> validateFileSize (f_size file) (parseInt (or_else (MAX_FILE_SIZE env) ''104857600'')) \<longrightarrow>
         fst (POST lib env sv rq) = ErrorResponse 400 ''File size exceeds limit'' None \<and>
         steps (snd (POST lib env sv rq)) = [TypeValidation, SizeValidation]) \<and>
      (validateFileType lib (f_name file) (f_type file) (getAllowedTypes lib) \<and>
       validateFileSize (f_size file) (parseInt (or_else (MAX_FILE_SIZE env) ''104857600'')) \<longrightarrow>
         (sv_scan sv = Throws \<longrightarrow>
            fst (POST lib env sv rq) = upload_failed \<and>
            steps (snd (POST lib env sv rq)) = [TypeValidation, SizeValidation, MalwareScan]) \<and>
         (sv_scan sv = Returns scanResult \<and> \<not> isClean scanResult \<longrightarrow>
            fst (POST lib env sv rq) =
              ErrorResponse 400 ''File contains malicious content and cannot be uploaded'' None \<and>
            steps (snd (POST lib env sv rq)) = [TypeValidation, SizeValidation, MalwareScan]) \<and>
         (sv_scan sv = Returns scanResult \<and> isClean scanResult \<longrightarrow>
            ((sv_storage sv = Throws \<or> (sv_storage sv = Returns res \<and> \<not> res_ok res)) \<longrightarrow>
               (\<exists>msg details. fst (POST lib env sv rq) = ErrorResponse 500 msg details) \<and>
               steps (snd (POST lib env sv rq)) =
                 [TypeValidation, SizeValidation, MalwareScan, StoreBinary]) \<and>
            (sv_storage sv = Returns res \<and> res_ok res \<and>
             (res_json res = Throws \<or> expiry (fd_expiresIn form) (sv_now sv) = Throws) \<longrightarrow>
               fst (POST lib env sv rq) = upload_failed \<and>
               steps (snd (POST lib env sv rq)) =
                 [TypeValidation, SizeValidation, MalwareScan, StoreBinary]) \<and>
            (sv_storage sv = Returns res \<and> res_ok res \<and> res_json res = Returns () \<and>
             expiry (fd_expiresIn form) (sv_now sv) = Returns expiryDate \<longrightarrow>
               (sv_fileInsertError sv = Some err \<longrightarrow>
                  fst (POST lib env sv rq) =
                    ErrorResponse 500 ''Failed to save file metadata in Supabase'' (Some err) \<and>
                  steps (snd (POST lib env sv rq)) =
                    [TypeValidation, SizeValidation, MalwareScan, StoreBinary, WriteMetadata]) \<and>
               (sv_fileInsertError sv = None \<and> sv_setWithExpiry sv = Throws \<longrightarrow>
                  fst (POST lib env sv rq) = upload_failed \<and>
                  steps (snd (POST lib env sv rq)) = upload_steps \<and>
                  last (snd (POST lib env sv rq)) =
                    SetWithExpiry (FILE_UPLOAD lib (sv_downloadToken sv))
                      \<lparr>cv_fileId = sv_fileId sv, cv_editToken = sv_editToken sv\<rparr>
                      86400 False) \<and>
               (sv_fileInsertError sv = None \<and> sv_setWithExpiry sv = Returns () \<longrightarrow>
                  POST lib env sv rq =
                    (success_response env sv rq file,
                     [IsAllowed, ReadFormData,
                      ValidateFileType (f_name file) (f_type file),
                      ValidateFileSize (f_size file) (parseInt (or_else (MAX_FILE_SIZE env) ''104857600'')),
                      ScanBuffer (f_bytes file),
                      CreateFile (BUCKETS_FILES lib) (sv_fileId sv) file True,
                      InsertFile (new_file_row sv rq form file expiryDate) True,
                      InsertAuditLog (upload_audit_row sv rq file),
                      SetWithExpiry (FILE_UPLOAD lib (sv_downloadToken sv))
                        \<lparr>cv_fileId = sv_fileId sv, cv_editToken = sv_editToken sv\<rparr>
                        86400 True]) \<and>
                  steps (snd (POST lib env sv rq)) = upload_steps)))))"
  (is ?claim)
proof -
  have always: "prefix (steps (snd (POST lib env sv rq))) upload_steps"
    by (rule steps_prefix)
  have success: "fst (POST lib env sv rq) = SuccessResponse body \<longrightarrow>
      steps (snd (POST lib env sv rq)) = upload_steps"
    using steps_success by blast
  have stages: "\<not> misconfigured env \<and> sv_isAllowed sv = Returns True \<and>
      sv_formData sv = Returns form \<and> fd_file form = Some file \<longrightarrow> ?claim"
  proof
    assume "\<not> misconfigured env \<and> sv_isAllowed sv = Returns True \<and>
      sv_formData sv = Returns form \<and> fd_file form = Some file"
    then have start: "POST lib env sv rq =
        validate_file lib env sv rq form file [IsAllowed, ReadFormData]"
      using POST_validate by blast
    have by_stage: "(\<not> validateFileType lib (f_name file) (f_type file) (getAllowedTypes lib) \<longrightarrow>
         fst (POST lib env sv rq) = ErrorResponse 400 ''File type not allowed'' None \<and>
         steps (snd (POST lib env sv rq)) = [TypeValidation]) \<and>
      (validateFileType lib (f_name file) (f_type file) (getAllowedTypes lib) \<and>
       (parseInt (or_else (MAX_FILE_SIZE env) ''104857600'')) = Num maxSize \<and> maxSize < int (f_size file) \<longrightarrow>
         fst (POST lib env sv rq) = ErrorResponse 400 ''File size exceeds limit'' None \<and>
         steps (snd (POST lib env sv rq)) = [TypeValidation, SizeValidation]) \<and>
      (validateFileType lib (f_name file) (f_type file) (getAllowedTypes lib) \<and>
       \<not> validateFileSize (f_size file) (parseInt (or_else (MAX_FILE_SIZE env) ''104857600'')) \<longrightarrow>
         fst (POST lib env sv rq) = ErrorResponse 400 ''File size exceeds limit'' None \<and>
         steps (snd (POST lib env sv rq)) = [TypeValidation, SizeValidation])"
      by (auto simp: start validate_file_def validateFileSize_def steps_def Let_def)
    have scanned: "validateFileType lib (f_name file) (f_type file) (getAllowedTypes lib) \<and>
       validateFileSize (f_size file) (parseInt (or_else (MAX_FILE_SIZE env) ''104857600'')) \<longrightarrow>
       POST lib env sv rq = scan_file lib env sv rq form file
         [IsAllowed, ReadFormData, ValidateFileType (f_name file) (f_type file),
          ValidateFileSize (f_size file) (parseInt (or_else (MAX_FILE_SIZE env) ''104857600''))]"
      by (simp add: start validate_file_def Let_def)
    have scan: "validateFileType lib (f_name file) (f_type file) (getAllowedTypes lib) \<and>
       validateFileSize (f_size file) (parseInt (or_else (MAX_FILE_SIZE env) ''104857600'')) \<longrightarrow>
         (sv_scan sv = Throws \<longrightarrow>
            fst (POST lib env sv rq) = upload_failed \<and>
            steps (snd (POST lib env sv rq)) = [TypeValidation, SizeValidation, MalwareScan]) \<and>
         (sv_scan sv = Returns scanResult \<and> \<not> isClean scanResult \<longrightarrow>
            fst (POST lib env sv rq) =
              ErrorResponse 400 ''File contains malicious content and cannot be uploaded'' None \<and>
            steps (snd (POST lib env sv rq)) = [TypeValidation, SizeValidation, MalwareScan])"
      using scanned by (auto simp: scan_file_def steps_def)
    have stored: "validateFileType lib (f_name file) (f_type file) (getAllowedTypes lib) \<and>
       validateFileSize (f_size file) (parseInt (or_else (MAX_FILE_SIZE env) ''104857600'')) \<and>
       sv_scan sv = Returns scanResult \<and> isClean scanResult \<longrightarrow>
       POST lib env sv rq = store_binary lib env sv rq form file
         [IsAllowed, ReadFormData, ValidateFileType (f_name file) (f_type file),
          ValidateFileSize (f_size file) (parseInt (or_else (MAX_FILE_SIZE env) ''104857600'')),
          ScanBuffer (f_bytes file)]"
      using scanned by (auto simp: scan_file_def)
    have store: "validateFileType lib (f_name file) (f_type file) (getAllowedTypes lib) \<and>
       validateFileSize (f_size file) (parseInt (or_else (MAX_FILE_SIZE env) ''104857600'')) \<and>
       sv_scan sv = Returns scanResult \<and> isClean scanResult \<longrightarrow>
         ((sv_storage sv = Throws \<or> (sv_storage sv = Returns res \<and> \<not> res_ok res)) \<longrightarrow>
            (\<exists>msg details. fst (POST lib env sv rq) = ErrorResponse 500 msg details) \<and>
            steps (snd (POST lib env sv rq)) =
              [TypeValidation, SizeValidation, MalwareScan, StoreBinary]) \<and>
         (sv_storage sv = Returns res \<and> res_ok res \<and>
          (res_json res = Throws \<or> expiry (fd_expiresIn form) (sv_now sv) = Throws) \<longrightarrow>
            fst (POST lib env sv rq) = upload_failed \<and>
            steps (snd (POST lib env sv rq)) =
              [TypeValidation, SizeValidation, MalwareScan, StoreBinary])"
      using stored
      by (auto simp: store_binary_def save_metadata_def upload_failed_def steps_def
          split: outcome.splits)
    have saved: "validateFileType lib (f_name file) (f_type file) (getAllowedTypes lib) \<and>
       validateFileSize (f_size file) (parseInt (or_else (MAX_FILE_SIZE env) ''104857600'')) \<and>
       sv_scan sv = Returns scanResult \<and> isClean scanResult \<and>
       sv_storage sv = Returns res \<and> res_ok res \<and> res_json res = Returns () \<and>
       expiry (fd_expiresIn form) (sv_now sv) = Returns expiryDate \<longrightarrow>
         (sv_fileInsertError sv = Some err \<longrightarrow>
            fst (POST lib env sv rq) =
              ErrorResponse 500 ''Failed to save file metadata in Supabase'' (Some err) \<and>
            steps (snd (POST lib env sv rq)) =
              [TypeValidation, SizeValidation, MalwareScan, StoreBinary, WriteMetadata]) \<and>
         (sv_fileInsertError sv = None \<and> sv_setWithExpiry sv = Throws \<longrightarrow>
            fst (POST lib env sv rq) = upload_failed \<and>
            steps (snd (POST lib env sv rq)) = upload_steps \<and>
            last (snd (POST lib env sv rq)) =
              SetWithExpiry (FILE_UPLOAD lib (sv_downloadToken sv))
                \<lparr>cv_fileId = sv_fileId sv, cv_editToken = sv_editToken sv\<rparr>
                86400 False) \<and>
         (sv_fileInsertError sv = None \<and> sv_setWithExpiry sv = Returns () \<longrightarrow>
            POST lib env sv rq =
              (success_response env sv rq file,
               [IsAllowed, ReadFormData,
                ValidateFileType (f_name file) (f_type file),
                ValidateFileSize (f_size file) (parseInt (or_else (MAX_FILE_SIZE env) ''104857600'')),
                ScanBuffer (f_bytes file),
                CreateFile (BUCKETS_FILES lib) (sv_fileId sv) file True,
                InsertFile (new_file_row sv rq form file expiryDate) True,
                InsertAuditLog (upload_audit_row sv rq file),
                SetWithExpiry (FILE_UPLOAD lib (sv_downloadToken sv))
                  \<lparr>cv_fileId = sv_fileId sv, cv_editToken = sv_editToken sv\<rparr>
                  86400 True]) \<and>
            steps (snd (POST lib env sv rq)) = upload_steps)"
      using stored
      by (auto simp: store_binary_def save_metadata_def cache_tokens_def steps_def
          upload_steps_def)
    from always success by_stage scan store saved show ?claim
      by blast
  qed
  show ?thesis
  proof (cases "\<not> misconfigured env \<and> sv_isAllowed sv = Returns True \<and>
      sv_formData sv = Returns form \<and> fd_file form = Some file")
    case True
    with stages show ?thesis by blast
  next
    case False
    with always success show ?thesis by blast
  qed
qed

theorem upload_steps_in_order_witness:
  "map_prod id steps
     (POST
     (\<lparr>getAllowedTypes = [''text/plain'', ''application/pdf''],
       validateFileType = (\<lambda>name mime allowed. mime \<in> set allowed),
       BUCKETS_FILES = ''files'',
       FILE_UPLOAD = (\<lambda>token. ''file_upload:'' @ token)\<rparr>)
     (\<lparr>NEXT_PUBLIC_SUPABASE_URL = Some ''https://your-project.supabase.co'',
       NEXT_PUBLIC_APPWRITE_ENDPOINT = Some ''https://your-appwrite-endpoint'',
       MAX_FILE_SIZE = Some ''5'',
       NEXT_PUBLIC_BASE_URL = Some ''https://your-domain.com''\<rparr>)
     (\<lparr>sv_isAllowed = Returns True,
       sv_formData = Returns (\<lparr>fd_file = Some (\<lparr>f_name = ''notes.txt'',
           f_type = ''text/plain'',
           f_size = 11,
           f_bytes = ''hello world''\<rparr>),
         fd_password = None,
         fd_expiresIn = None,
         fd_maxDownloads = None,
         fd_captchaToken = None\<rparr>),
       sv_fileId = ''file-01'',
       sv_downloadToken = ''dl-4f9a1c'',
       sv_editToken = ''ed-77b2e0'',
       sv_scan = Returns (\<lparr>isClean = True,
           signature = None,
           scan_message = None\<rparr>),
       sv_storage = Returns (\<lparr>res_ok = True,
           res_text = Returns ''{}'',
           res_json = Returns ()\<rparr>),
       sv_now = 1714557600000,
       sv_uploadedAt = 1714557600002,
       sv_fileInsertError = None,
       sv_setWithExpiry = Returns ()\<rparr>)
     (\<lparr>rq_origin = ''http://localhost:3000'',
       rq_clientIP = ''203.0.113.7'',
       rq_userAgent = Some ''curl/8.5.0''\<rparr>)) =
   (ErrorResponse 400 ''File size exceeds limit'' None, [TypeValidation, SizeValidation]) \<and>
   map_prod id steps
     (POST
     (\<lparr>getAllowedTypes = [''text/plain'', ''application/pdf''],
       validateFileType = (\<lambda>name mime allowed. mime \<in> set allowed),
       BUCKETS_FILES = ''files'',
       FILE_UPLOAD = (\<lambda>token. ''file_upload:'' @ token)\<rparr>)
     (\<lparr>NEXT_PUBLIC_SUPABASE_URL = Some ''https://your-project.supabase.co'',
       NEXT_PUBLIC_APPWRITE_ENDPOINT = Some ''https://your-appwrite-endpoint'',
       MAX_FILE_SIZE = Some ''734003200'',
       NEXT_PUBLIC_BASE_URL = Some ''https://your-domain.com''\<rparr>)
     (\<lparr>sv_isAllowed = Returns True,
       sv_formData = Returns (\<lparr>fd_file = Some (\<lparr>f_name = ''notes.txt'',
           f_type = ''text/plain'',
           f_size = 11,
           f_bytes = ''hello world''\<rparr>),
         fd_password = None,
         fd_expiresIn = None,
         fd_maxDownloads = None,
         fd_captchaToken = None\<rparr>),
       sv_fileId = ''file-01'',
       sv_downloadToken = ''dl-4f9a1c'',
       sv_editToken = ''ed-77b2e0'',
       sv_scan = Returns (\<lparr>isClean = True,
           signature = None,
           scan_message = None\<rparr>),
       sv_storage = Returns (\<lparr>res_ok = True,
           res_text = Returns ''{}'',
           res_json = Returns ()\<rparr>),
       sv_now = 1714557600000,
       sv_uploadedAt = 1714557600002,
       sv_fileInsertError = Some ''duplicate key'',
       sv_setWithExpiry = Returns ()\<rparr>)
     (\<lparr>rq_origin = ''http://localhost:3000'',
       rq_clientIP = ''203.0.113.7'',
       rq_userAgent = Some ''curl/8.5.0''\<rparr>)) =
   (ErrorResponse 500 ''Failed to save file metadata in Supabase'' (Some ''duplicate key''),
    [TypeValidation, SizeValidation, MalwareScan, StoreBinary, WriteMetadata]) \<and>
   map_prod id steps
     (POST
     (\<lparr>getAllowedTypes = [''text/plain'', ''application/pdf''],
       validateFileType = (\<lambda>name mime allowed. mime \<in> set allowed),
       BUCKETS_FILES = ''files'',
       FILE_UPLOAD = (\<lambda>token. ''file_upload:'' @ token)\<rparr>)
     (\<lparr>NEXT_PUBLIC_SUPABASE_URL = Some ''https://your-project.supabase.co'',
       NEXT_PUBLIC_APPWRITE_ENDPOINT = Some ''https://your-appwrite-endpoint'',
       MAX_FILE_SIZE = Some ''734003200'',
       NEXT_PUBLIC_BASE_URL = Some ''https://your-domain.com''\<rparr>)
     (\<lparr>sv_isAllowed = Returns True,
       sv_formData = Returns (\<lparr>fd_file = Some (\<lparr>f_name = ''notes.txt'',
           f_type = ''text/plain'',
           f_size = 11,
           f_bytes = ''hello world''\<rparr>),
         fd_password = None,
         fd_expiresIn = None,
         fd_maxDownloads = None,
         fd_captchaToken = None\<rparr>),
       sv_fileId = ''file-01'',
       sv_downloadToken = ''dl-4f9a1c'',
       sv_editToken = ''ed-77b2e0'',
       sv_scan = Returns (\<lparr>isClean = True,
           signature = None,
           scan_message = None\<rparr>),
       sv_storage = Returns (\<lparr>res_ok = True,
           res_text = Returns ''{}'',
           res_json = Returns ()\<rparr>),
       sv_now = 1714557600000,
       sv_uploadedAt = 1714557600002,
       sv_fileInsertError = None,
       sv_setWithExpiry = Throws\<rparr>)
     (\<lparr>rq_origin = ''http://localhost:3000'',
       rq_clientIP = ''203.0.113.7'',
       rq_userAgent = Some ''curl/8.5.0''\<rparr>)) =
   (ErrorResponse 500 ''Upload failed. Please try again.'' None,
    [TypeValidation, SizeValidation, MalwareScan, StoreBinary, WriteMetadata, CacheTokens])"
  (is "map_prod id steps (POST ?lib ?env5 ?sv ?rq) = _ \<and>
       map_prod id steps (POST _ ?env ?sv' _) = _ \<and>
       map_prod id steps (POST _ _ ?sv'' _) = _")
proof -
  let ?file = "\<lparr>f_name = ''notes.txt'',
           f_type = ''text/plain'',
           f_size = 11,
           f_bytes = ''hello world''\<rparr>"
  let ?form = "\<lparr>fd_file = Some (?file),
         fd_password = None,
         fd_expiresIn = None,
         fd_maxDownloads = None,
         fd_captchaToken = None\<rparr>"
  let ?scan = "\<lparr>isClean = True,
           signature = None,
           scan_message = None\<rparr>"
  let ?res = "\<lparr>res_ok = True,
           res_text = Returns ''{}'',
           res_json = Returns ()\<rparr>"
  have configured: "\<not> misconfigured ?env"
    by (simp add: misconfigured_def falsy_def)
  have maxSize: "parseInt (or_else (Some ''734003200'') ''104857600'') = Num 734003200"
    by (simp add: parseInt_eval)
  have configured5: "\<not> misconfigured ?env5"
    by (simp add: misconfigured_def falsy_def)
  have maxSize5: "parseInt (or_else (Some ''5'') ''104857600'') = Num 5"
    by (simp add: parseInt_eval)
  have expiry: "expiry None 1714557600000 = Returns None"
    by (simp add: expiry_def)
  have too_big: "fst (POST ?lib ?env5 ?sv ?rq) = ErrorResponse 400 ''File size exceeds limit'' None \<and>
      steps (snd (POST ?lib ?env5 ?sv ?rq)) = [TypeValidation, SizeValidation]"
    using upload_steps_in_order [of ?lib ?env5 ?sv ?rq _ ?form ?file 5] configured5 maxSize5
    by simp
  have db_error: "fst (POST ?lib ?env ?sv' ?rq) =
        ErrorResponse 500 ''Failed to save file metadata in Supabase'' (Some ''duplicate key'') \<and>
      steps (snd (POST ?lib ?env ?sv' ?rq)) =
        [TypeValidation, SizeValidation, MalwareScan, StoreBinary, WriteMetadata]"
    using upload_steps_in_order [of ?lib ?env ?sv' ?rq _ ?form ?file _ ?scan ?res None
        "''duplicate key''"] configured maxSize expiry
    by (simp add: validateFileSize_def)
  have cache_error: "fst (POST ?lib ?env ?sv'' ?rq) = upload_failed \<and>
      steps (snd (POST ?lib ?env ?sv'' ?rq)) = upload_steps"
    using upload_steps_in_order [of ?lib ?env ?sv'' ?rq _ ?form ?file _ ?scan ?res None]
      configured maxSize expiry
    by (simp add: validateFileSize_def)
  from too_big db_error cache_error show ?thesis
    by (simp add: prod_eq_iff upload_failed_def upload_steps_def)
qed







text \<open>Every row that the handler gives to the insert into \<open>files\<close> is built after the expiry calculation returned.\<close>

lemma POST_InsertFile:
  "InsertFile row stored \<in> set (snd (POST lib env sv rq)) \<Longrightarrow>
   \<exists>form file expiryDate.
     sv_formData sv = Returns form \<and> fd_file form = Some file \<and>
     expiry (fd_expiresIn form) (sv_now sv) = Returns expiryDate \<and>
     row = new_file_row sv rq form file expiryDate"
  by (auto simp: POST_defs split: if_splits outcome.splits option.splits)

lemma expiry_Returns:
  assumes "expiry expiresIn now = Returns expiryDate"
  shows "(expiresIn = None \<or> expiresIn = Some [] \<or> expiresIn = Some ''never'' \<longrightarrow>
            expiryDate = None) \<and>
         (\<forall>e. expiresIn = Some e \<and> e \<noteq> [] \<and> e \<noteq> ''never'' \<longrightarrow>
            (\<exists>t. js_plus now (js_times (js_times (js_times (parseInt e) 60) 60) 1000) = Num t \<and>
               \<bar>t\<bar> \<le> 8640000000000000 \<and> expiryDate = Some t))"
  using assms by (auto simp: expiry_def split: if_splits option.splits js_number.splits)

text \<open>
  C6, as the claim states it, fails: with the form field \<open>expiresIn\<close> present and
  empty, which differs from \<open>never\<close>, the upload succeeds and the row written to
  \<open>files\<close> has no expiry date.
\<close>

theorem empty_expiresIn_stores_no_expiry:
  "POST
     (\<lparr>getAllowedTypes = [''text/plain'', ''application/pdf''],
       validateFileType = (\<lambda>name mime allowed. mime \<in> set allowed),
       BUCKETS_FILES = ''files'',
       FILE_UPLOAD = (\<lambda>token. ''file_upload:'' @ token)\<rparr>)
     (\<lparr>NEXT_PUBLIC_SUPABASE_URL = Some ''https://your-project.supabase.co'',
       NEXT_PUBLIC_APPWRITE_ENDPOINT = Some ''https://your-appwrite-endpoint'',
       MAX_FILE_SIZE = Some ''734003200'',
       NEXT_PUBLIC_BASE_URL = Some ''https://your-domain.com''\<rparr>)
     (\<lparr>sv_isAllowed = Returns True,
       sv_formData = Returns (\<lparr>fd_file = Some (\<lparr>f_name = ''notes.txt'',
           f_type = ''text/plain'',
           f_size = 11,
           f_bytes = ''hello world''\<rparr>),
         fd_password = None,
         fd_expiresIn = Some [],
         fd_maxDownloads = None,
         fd_captchaToken = None\<rparr>),
       sv_fileId = ''file-01'',
       sv_downloadToken = ''dl-4f9a1c'',
       sv_editToken = ''ed-77b2e0'',
       sv_scan = Returns (\<lparr>isClean = True,
           signature = None,
           scan_message = None\<rparr>),
       sv_storage = Returns (\<lparr>res_ok = True,
           res_text = Returns ''{}'',
           res_json = Returns ()\<rparr>),
       sv_now = 1714557600000,
       sv_uploadedAt = 1714557600002,
       sv_fileInsertError = None,
       sv_setWithExpiry = Returns ()\<rparr>)
     (\<lparr>rq_origin = ''http://localhost:3000'',
       rq_clientIP = ''203.0.113.7'',
       rq_userAgent = Some ''curl/8.5.0''\<rparr>) =
   (SuccessResponse
       \<lparr>sb_fileId = ''file-01'',
        sb_downloadUrl = ''https://your-domain.com/files/dl-4f9a1c'',
        sb_editUrl = ''https://your-domain.com/files/manage/ed-77b2e0'',
        sb_name = ''notes.txt'', sb_size = 11, sb_type = ''text/plain''\<rparr>,
    [IsAllowed, ReadFormData, ValidateFileType ''notes.txt'' ''text/plain'',
       ValidateFileSize 11 (Num 734003200), ScanBuffer ''hello world'',
       CreateFile ''files'' ''file-01''
        (\<lparr>f_name = ''notes.txt'',
           f_type = ''text/plain'',
           f_size = 11,
           f_bytes = ''hello world''\<rparr>) True,
       InsertFile
        (\<lparr>original_name = ''notes.txt'',
         row_size = 11,
         mime_type = ''text/plain'',
         download_token = ''dl-4f9a1c'',
         edit_token = ''ed-77b2e0'',
         password = None,
         expiry_date = None,
         max_downloads = None,
         download_count = 0,
         is_active = True,
         uploaded_at = 1714557600002,
         uploaded_by = ''203.0.113.7'',
         last_downloaded_at = None\<rparr>) True,
       InsertAuditLog
        (\<lparr>a_action = ''file_upload'',
         a_resource_type = ''file'',
         a_resource_id = ''file-01'',
         a_ip_address = ''203.0.113.7'',
         a_user_agent = Some ''curl/8.5.0'',
         a_metadata = UploadMetadata ''notes.txt'' 11 ''text/plain''\<rparr>),
       SetWithExpiry ''file_upload:dl-4f9a1c''
        \<lparr>cv_fileId = ''file-01'', cv_editToken = ''ed-77b2e0''\<rparr> 86400 True]) \<and>
   Some [] \<noteq> Some ''never''"
  (is "POST ?lib ?env ?sv ?rq = _ \<and> _")
proof -
  have configured: "\<not> misconfigured ?env"
    by (simp add: misconfigured_def falsy_def)
  have maxSize: "parseInt (or_else (Some ''734003200'') ''104857600'') = Num 734003200"
    by (simp add: parseInt_eval)
  show ?thesis
    using configured maxSize
    by (simp add: POST_defs validateFileSize_def expiry_def falsy_def new_file_row_def
        upload_audit_row_def success_response_def or_else_def)
qed

text \<open>
  C6, amended. For every row that the handler gives to the insert into \<open>files\<close>: if
  the form field \<open>expiresIn\<close> is present, not empty and different from \<open>never\<close>, then
  the expiry date of the row is the double that
  \<open>Date.now() + parseInt(expiresIn) * 60 * 60 * 1000\<close> evaluates to, a whole number of
  milliseconds at most 8.64e15 from the epoch; and when the reading of \<open>Date.now()\<close>
  is at most \<open>10 ^ 14\<close> in absolute value (the year 5138), no step of that arithmetic
  rounds: \<open>parseInt(expiresIn)\<close> is a whole number of hours and the expiry date is the
  reading of \<open>Date.now()\<close> plus exactly \<open>hours * 60 * 60 * 1000\<close> milliseconds. If
  \<open>expiresIn\<close> is absent, empty or \<open>never\<close>, the expiry date is null. The password
  of the row is null when the field is absent or empty and the password given otherwise;
  \<open>max_downloads\<close> is null when the field is absent or empty, and otherwise what
  \<open>parseInt\<close> of the field is written as: the number, or null when it is not finite.
\<close>

theorem stored_expiry_password_limit:
  "InsertFile row stored \<in> set (snd (POST lib env sv rq)) \<Longrightarrow>
   \<exists>form.
     sv_formData sv = Returns form \<and>
     (\<forall>e. fd_expiresIn form = Some e \<and> e \<noteq> [] \<and> e \<noteq> ''never'' \<longrightarrow>
        (\<exists>t. js_plus (sv_now sv) (js_times (js_times (js_times (parseInt e) 60) 60) 1000) = Num t \<and>
           \<bar>t\<bar> \<le> 8640000000000000 \<and> expiry_date row = Some t) \<and>
        (\<bar>sv_now sv\<bar> \<le> 100000000000000 \<longrightarrow>
           (\<exists>hours. parseInt e = Num hours \<and>
              expiry_date row = Some (sv_now sv + hours * 60 * 60 * 1000)))) \<and>
     (fd_expiresIn form = None \<or> fd_expiresIn form = Some [] \<or>
      fd_expiresIn form = Some ''never'' \<longrightarrow> expiry_date row = None) \<and>
     (fd_password form = None \<or> fd_password form = Some [] \<longrightarrow> password row = None) \<and>
     (\<forall>p. fd_password form = Some p \<and> p \<noteq> [] \<longrightarrow> password row = Some p) \<and>
     (fd_maxDownloads form = None \<or> fd_maxDownloads form = Some [] \<longrightarrow>
        max_downloads row = None) \<and>
     (\<forall>m. fd_maxDownloads form = Some m \<and> m \<noteq> [] \<longrightarrow>
        max_downloads row = json_number (parseInt m) \<and>
        (\<forall>limit. parseInt m = Num limit \<longrightarrow> max_downloads row = Some limit) \<and>
        (parseInt m \<in> {NaN, PosInfinity, NegInfinity} \<longrightarrow> max_downloads row = None))"
proof -
  assume "InsertFile row stored \<in> set (snd (POST lib env sv rq))"
  from POST_InsertFile [OF this] obtain form upload expiryDate where
    form: "sv_formData sv = Returns form"
    and exp: "expiry (fd_expiresIn form) (sv_now sv) = Returns expiryDate"
    and row: "row = new_file_row sv rq form upload expiryDate"
    by blast
  have e: "expiry_date row = expiryDate"
    and p: "password row =
      (case fd_password form of None \<Rightarrow> None | Some p \<Rightarrow> if p = [] then None else Some p)"
    and m: "max_downloads row =
      (case fd_maxDownloads form of None \<Rightarrow> None
       | Some m \<Rightarrow> if m = [] then None else json_number (parseInt m))"
    by (simp_all add: row new_file_row_def)
  note r = expiry_Returns [OF exp]
  have date: "\<forall>e. fd_expiresIn form = Some e \<and> e \<noteq> [] \<and> e \<noteq> ''never'' \<longrightarrow>
        (\<exists>t. js_plus (sv_now sv) (js_times (js_times (js_times (parseInt e) 60) 60) 1000) = Num t \<and>
           \<bar>t\<bar> \<le> 8640000000000000 \<and> expiry_date row = Some t) \<and>
        (\<bar>sv_now sv\<bar> \<le> 100000000000000 \<longrightarrow>
           (\<exists>hours. parseInt e = Num hours \<and>
              expiry_date row = Some (sv_now sv + hours * 60 * 60 * 1000)))"
  proof (intro allI impI)
    fix e
    assume present: "fd_expiresIn form = Some e \<and> e \<noteq> [] \<and> e \<noteq> ''never''"
    with r obtain t where
      t: "js_plus (sv_now sv) (js_times (js_times (js_times (parseInt e) 60) 60) 1000) = Num t"
      and range: "\<bar>t\<bar> \<le> 8640000000000000" and stored: "expiryDate = Some t"
      by blast
    have exact: "\<exists>hours. parseInt e = Num hours \<and>
        expiry_date row = Some (sv_now sv + hours * 60 * 60 * 1000)"
      if "\<bar>sv_now sv\<bar> \<le> 100000000000000"
      using expiry_time_exact [OF t range that] by (simp add: e stored)
    from t range stored exact
    show "(\<exists>t. js_plus (sv_now sv) (js_times (js_times (js_times (parseInt e) 60) 60) 1000) = Num t \<and>
           \<bar>t\<bar> \<le> 8640000000000000 \<and> expiry_date row = Some t) \<and>
        (\<bar>sv_now sv\<bar> \<le> 100000000000000 \<longrightarrow>
           (\<exists>hours. parseInt e = Num hours \<and>
              expiry_date row = Some (sv_now sv + hours * 60 * 60 * 1000)))"
      by (simp add: e)
  qed
  have none: "fd_expiresIn form = None \<or> fd_expiresIn form = Some [] \<or>
      fd_expiresIn form = Some ''never'' \<longrightarrow> expiry_date row = None"
    using r by (simp add: e)
  have rest: "(fd_password form = None \<or> fd_password form = Some [] \<longrightarrow> password row = None) \<and>
     (\<forall>p. fd_password form = Some p \<and> p \<noteq> [] \<longrightarrow> password row = Some p) \<and>
     (fd_maxDownloads form = None \<or> fd_maxDownloads form = Some [] \<longrightarrow>
        max_downloads row = None) \<and>
     (\<forall>m. fd_maxDownloads form = Some m \<and> m \<noteq> [] \<longrightarrow>
        max_downloads row = json_number (parseInt m) \<and>
        (\<forall>limit. parseInt m = Num limit \<longrightarrow> max_downloads row = Some limit) \<and>
        (parseInt m \<in> {NaN, PosInfinity, NegInfinity} \<longrightarrow> max_downloads row = None))"
    by (auto simp: p m json_number_def)
  from form date none rest show ?thesis
    by (intro exI [of _ form]) (simp only: simp_thms)
qed

theorem stored_expiry_password_limit_witness:
  "POST
     (\<lparr>getAllowedTypes = [''text/plain'', ''application/pdf''],
       validateFileType = (\<lambda>name mime allowed. mime \<in> set allowed),
       BUCKETS_FILES = ''files'',
       FILE_UPLOAD = (\<lambda>token. ''file_upload:'' @ token)\<rparr>)
     (\<lparr>NEXT_PUBLIC_SUPABASE_URL = Some ''https://your-project.supabase.co'',
       NEXT_PUBLIC_APPWRITE_ENDPOINT = Some ''https://your-appwrite-endpoint'',
       MAX_FILE_SIZE = Some ''734003200'',
       NEXT_PUBLIC_BASE_URL = Some ''https://your-domain.com''\<rparr>)
     (\<lparr>sv_isAllowed = Returns True,
       sv_formData = Returns (\<lparr>fd_file = Some (\<lparr>f_name = ''notes.txt'',
           f_type = ''text/plain'',
           f_size = 11,
           f_bytes = ''hello world''\<rparr>),
         fd_password = Some ''s3cret'',
         fd_expiresIn = Some (CHR 0xC2 # CHR 0xA0 # ''24''),
         fd_maxDownloads = Some ''9007199254740993'',
         fd_captchaToken = None\<rparr>),
       sv_fileId = ''file-01'',
       sv_downloadToken = ''dl-4f9a1c'',
       sv_editToken = ''ed-77b2e0'',
       sv_scan = Returns (\<lparr>isClean = True,
           signature = None,
           scan_message = None\<rparr>),
       sv_storage = Returns (\<lparr>res_ok = True,
           res_text = Returns ''{}'',
           res_json = Returns ()\<rparr>),
       sv_now = 1714557600000,
       sv_uploadedAt = 1714557600002,
       sv_fileInsertError = None,
       sv_setWithExpiry = Returns ()\<rparr>)
     (\<lparr>rq_origin = ''http://localhost:3000'',
       rq_clientIP = ''203.0.113.7'',
       rq_userAgent = Some ''curl/8.5.0''\<rparr>) =
   (SuccessResponse
       \<lparr>sb_fileId = ''file-01'',
        sb_downloadUrl = ''https://your-domain.com/files/dl-4f9a1c'',
        sb_editUrl = ''https://your-domain.com/files/manage/ed-77b2e0'',
        sb_name = ''notes.txt'', sb_size = 11, sb_type = ''text/plain''\<rparr>,
    [IsAllowed, ReadFormData, ValidateFileType ''notes.txt'' ''text/plain'',
       ValidateFileSize 11 (Num 734003200), ScanBuffer ''hello world'',
       CreateFile ''files'' ''file-01''
        (\<lparr>f_name = ''notes.txt'',
           f_type = ''text/plain'',
           f_size = 11,
           f_bytes = ''hello world''\<rparr>) True,
       InsertFile
        (\<lparr>original_name = ''notes.txt'',
         row_size = 11,
         mime_type = ''text/plain'',
         download_token = ''dl-4f9a1c'',
         edit_token = ''ed-77b2e0'',
         password = Some ''s3cret'',
         expiry_date = Some 1714644000000,
         max_downloads = Some 9007199254740992,
         download_count = 0,
         is_active = True,
         uploaded_at = 1714557600002,
         uploaded_by = ''203.0.113.7'',
         last_downloaded_at = None\<rparr>) True,
       InsertAuditLog
        (\<lparr>a_action = ''file_upload'',
         a_resource_type = ''file'',
         a_resource_id = ''file-01'',
         a_ip_address = ''203.0.113.7'',
         a_user_agent = Some ''curl/8.5.0'',
         a_metadata = UploadMetadata ''notes.txt'' 11 ''text/plain''\<rparr>),
       SetWithExpiry ''file_upload:dl-4f9a1c''
        \<lparr>cv_fileId = ''file-01'', cv_editToken = ''ed-77b2e0''\<rparr> 86400 True]) \<and>
   (1714644000000::int) = 1714557600000 + 24 * 60 * 60 * 1000"
  (is "POST ?lib ?env ?sv ?rq = (_, ?calls) \<and> _")
proof -
  let ?row = "\<lparr>original_name = ''notes.txt'',
         row_size = 11,
         mime_type = ''text/plain'',
         download_token = ''dl-4f9a1c'',
         edit_token = ''ed-77b2e0'',
         password = Some ''s3cret'',
         expiry_date = Some 1714644000000,
         max_downloads = Some 9007199254740992,
         download_count = 0,
         is_active = True,
         uploaded_at = 1714557600002,
         uploaded_by = ''203.0.113.7'',
         last_downloaded_at = None\<rparr>"
  have configured: "\<not> misconfigured ?env"
    by (simp add: misconfigured_def falsy_def)
  have maxSize: "parseInt (or_else (Some ''734003200'') ''104857600'') = Num 734003200"
    by (simp add: parseInt_eval)
  have hours: "parseInt (CHR 0xC2 # CHR 0xA0 # ''24'') = Num 24"
    by (simp add: parseInt_eval)
  have limit: "parseInt ''9007199254740993'' = Num 9007199254740992"
    by (simp add: parseInt_eval bit_length.simps)
  have date: "expiry (Some (CHR 0xC2 # CHR 0xA0 # ''24'')) 1714557600000 = Returns (Some 1714644000000)"
    using hours by (simp add: expiry_def js_plus_def js_times_def to_double_def round_to_double_def)
  have run: "POST ?lib ?env ?sv ?rq =
     (SuccessResponse
       \<lparr>sb_fileId = ''file-01'',
        sb_downloadUrl = ''https://your-domain.com/files/dl-4f9a1c'',
        sb_editUrl = ''https://your-domain.com/files/manage/ed-77b2e0'',
        sb_name = ''notes.txt'', sb_size = 11, sb_type = ''text/plain''\<rparr>, ?calls)"
    using configured maxSize date limit
    by (simp add: POST_defs validateFileSize_def falsy_def new_file_row_def json_number_def
        upload_audit_row_def success_response_def or_else_def)
  then have stored: "InsertFile ?row True \<in> set (snd (POST ?lib ?env ?sv ?rq))"
    by simp
  from stored_expiry_password_limit [OF stored] hours
  have "expiry_date ?row = Some (1714557600000 + 24 * 60 * 60 * 1000)"
    by auto
  with run show ?thesis
    by simp
qed

end
